theory Spec2Isabelle
  imports Main "HOL-Library.Word" "HOL-Library.AList"
begin

section \<open>Property dictionaries\<close>

text \<open>
  Modelled from the spec: \<^verbatim>\<open>struct pw_properties\<close> and its operations live in
  \<^verbatim>\<open>src/pipewire/properties.c\<close>, which is not under src/. The spec (4.1) describes an
  ordered string to string mapping with unique keys; \<open>set(key, value)\<close> inserts or
  overwrites and removes the key when the value is absent, \<open>get(key)\<close> returns the
  current value or "unset".
\<close>

type_synonym pw_properties = "(string \<times> string) list"

definition pw_properties_set :: "pw_properties \<Rightarrow> string \<Rightarrow> string option \<Rightarrow> pw_properties" where
  "pw_properties_set props key val =
     (case val of None \<Rightarrow> AList.delete key props
                | Some v \<Rightarrow> AList.update key v props)"

definition pw_properties_get :: "pw_properties \<Rightarrow> string \<Rightarrow> string option" where
  "pw_properties_get props key = map_of props key"

text \<open>
  Modelled from the spec: \<open>update_from_string(text)\<close> "parses a whitespace-separated
  k=v (or k="v with spaces") bag and merges into self. Quoting rules: double-quote
  delimits, backslash escapes the next character, unquoted tokens terminate at
  whitespace or =. Malformed input yields INVALID_ARGUMENT." Here a missing \<open>=\<close>, an
  empty key, an unterminated quote and a backslash at the end of the text are malformed.
\<close>

definition is_space :: "char \<Rightarrow> bool" where
  "is_space c = (c = CHR '' '' \<or> c = CHR 0x09 \<or> c = CHR 0x0A \<or> c = CHR 0x0D)"

fun unquoted_token :: "string \<Rightarrow> (string \<times> string) option" where
  "unquoted_token [] = Some ([], [])"
| "unquoted_token [c] =
     (if is_space c \<or> c = CHR ''='' then Some ([], [c])
      else if c = CHR 0x5C then None
      else Some ([c], []))"
| "unquoted_token (c # e # es) =
     (if is_space c \<or> c = CHR ''='' then Some ([], c # e # es)
      else if c = CHR 0x5C then map_option (apfst ((#) e)) (unquoted_token es)
      else map_option (apfst ((#) c)) (unquoted_token (e # es)))"

fun quoted_token :: "string \<Rightarrow> (string \<times> string) option" where
  "quoted_token [] = None"
| "quoted_token [c] = (if c = CHR 0x22 then Some ([], []) else None)"
| "quoted_token (c # e # es) =
     (if c = CHR 0x22 then Some ([], e # es)
      else if c = CHR 0x5C then map_option (apfst ((#) e)) (quoted_token es)
      else map_option (apfst ((#) c)) (quoted_token (e # es)))"

definition value_token :: "string \<Rightarrow> (string \<times> string) option" where
  "value_token s =
     (case s of
        c # cs \<Rightarrow> if c = CHR 0x22 then quoted_token cs else unquoted_token s
      | [] \<Rightarrow> unquoted_token s)"

lemma unquoted_token_length:
  "unquoted_token s = Some (t, r) \<Longrightarrow> length r \<le> length s"
proof (induction s arbitrary: t r rule: unquoted_token.induct)
  case 1
  then show ?case by simp
next
  case (2 c)
  then show ?case by (auto split: if_splits)
next
  case (3 c e es)
  show ?case
  proof (cases "is_space c \<or> c = CHR ''=''")
    case True
    with 3(3) show ?thesis by auto
  next
    case False
    show ?thesis
    proof (cases "c = CHR 0x5C")
      case True
      with False 3(3) obtain t' where "unquoted_token es = Some (t', r)"
        by (cases "unquoted_token es") auto
      with 3(1) False True have "length r \<le> length es" by blast
      then show ?thesis by simp
    next
      case c: False
      with False 3(3) obtain t' where "unquoted_token (e # es) = Some (t', r)"
        by (cases "unquoted_token (e # es)") auto
      with 3(2) False c have "length r \<le> length (e # es)" by blast
      then show ?thesis by simp
    qed
  qed
qed

lemma quoted_token_length:
  "quoted_token s = Some (t, r) \<Longrightarrow> length r \<le> length s"
proof (induction s arbitrary: t r rule: quoted_token.induct)
  case 1
  then show ?case by simp
next
  case (2 c)
  then show ?case by (auto split: if_splits)
next
  case (3 c e es)
  show ?case
  proof (cases "c = CHR 0x22")
    case True
    with 3(3) show ?thesis by auto
  next
    case False
    show ?thesis
    proof (cases "c = CHR 0x5C")
      case True
      with False 3(3) obtain t' where "quoted_token es = Some (t', r)"
        by (cases "quoted_token es") auto
      with 3(1) False True have "length r \<le> length es" by blast
      then show ?thesis by simp
    next
      case c: False
      with False 3(3) obtain t' where "quoted_token (e # es) = Some (t', r)"
        by (cases "quoted_token (e # es)") auto
      with 3(2) False c have "length r \<le> length (e # es)" by blast
      then show ?thesis by simp
    qed
  qed
qed

lemma value_token_length:
  "value_token s = Some (t, r) \<Longrightarrow> length r \<le> length s"
  by (auto simp: value_token_def split: list.splits if_splits
           dest: unquoted_token_length quoted_token_length)

function parse_bag :: "string \<Rightarrow> (string \<times> string) list option" where
  "parse_bag s =
     (let s1 = dropWhile is_space s in
      if s1 = [] then Some []
      else case unquoted_token s1 of
             None \<Rightarrow> None
           | Some (k, r1) \<Rightarrow>
               if k = [] then None
               else (case r1 of
                       [] \<Rightarrow> None
                     | c # r2 \<Rightarrow>
                         if c \<noteq> CHR ''='' then None
                         else (case value_token r2 of
                                 None \<Rightarrow> None
                               | Some (v, r3) \<Rightarrow> map_option ((#) (k, v)) (parse_bag r3))))"
  by pat_completeness auto
termination
proof (relation "measure length", goal_cases)
  case 1
  show ?case by simp
next
  case (2 s s1 x2 k r1 c r2 x2a v r3)
  have "length r3 \<le> length r2"
    using 2 by (auto dest: value_token_length)
  moreover have "length r1 \<le> length s1"
    using 2 by (auto dest: unquoted_token_length)
  moreover have "length s1 \<le> length s"
    using 2 by (simp add: length_dropWhile_le)
  ultimately show ?case using 2 by simp
qed

declare parse_bag.simps [simp del]

datatype error = INVALID_ARGUMENT

definition merge_items :: "pw_properties \<Rightarrow> (string \<times> string) list \<Rightarrow> pw_properties" where
  "merge_items props kvs = fold (\<lambda>(k, v) p. pw_properties_set p k (Some v)) kvs props"

definition pw_properties_update_string :: "pw_properties \<Rightarrow> string \<Rightarrow> error + pw_properties" where
  "pw_properties_update_string props str =
     (case parse_bag str of
        None \<Rightarrow> Inl INVALID_ARGUMENT
      | Some kvs \<Rightarrow> Inr (merge_items props kvs))"


section \<open>C library helpers\<close>

text \<open>
  \<^verbatim>\<open>atoi\<close> as the C library defines it: leading white space, an optional sign, decimal
  digits; the value of \<^verbatim>\<open>strtol\<close> (clamped to the range of \<^verbatim>\<open>long\<close>) converted to a
  32-bit \<^verbatim>\<open>int\<close>. The result is read as signed with \<open>sint\<close>.
\<close>

definition isspace :: "char \<Rightarrow> bool" where
  "isspace c = (c = CHR '' '' \<or> (9 \<le> (of_char c :: nat) \<and> (of_char c :: nat) \<le> 13))"

definition isdigit :: "char \<Rightarrow> bool" where
  "isdigit c = (48 \<le> (of_char c :: nat) \<and> (of_char c :: nat) \<le> 57)"

fun strtol_digits :: "int \<Rightarrow> string \<Rightarrow> int" where
  "strtol_digits acc [] = acc"
| "strtol_digits acc (c # cs) =
     (if isdigit c then strtol_digits (acc * 10 + (of_char c - 48)) cs else acc)"

definition strtol :: "string \<Rightarrow> int" where
  "strtol s =
     (let s1 = dropWhile isspace s in
      case s1 of
        [] \<Rightarrow> 0
      | c # cs \<Rightarrow>
          if c = CHR ''-'' then max (- (2 ^ 63)) (- strtol_digits 0 cs)
          else if c = CHR ''+'' then min (2 ^ 63 - 1) (strtol_digits 0 cs)
          else min (2 ^ 63 - 1) (strtol_digits 0 s1))"

definition atoi :: "string \<Rightarrow> 32 word" where
  "atoi s = word_of_int (strtol s)"

text \<open>C's integer division truncates towards zero.\<close>

definition c_div :: "int \<Rightarrow> int \<Rightarrow> int" where
  "c_div a b = sgn a * sgn b * (\<bar>a\<bar> div \<bar>b\<bar>)"

text \<open>The decimal rendering of \<^verbatim>\<open>%u\<close> and \<^verbatim>\<open>%zd\<close> (of a non-negative value).\<close>

function utoa :: "nat \<Rightarrow> string" where
  "utoa n =
     (if n < 10 then [''0123456789'' ! n]
      else utoa (n div 10) @ [''0123456789'' ! (n mod 10)])"
  by pat_completeness auto
termination
  by (relation "measure id") auto

declare utoa.simps [simp del]

section \<open>Buffers and streams\<close>

type_synonym addr = nat

text \<open>
  Modelled from the spec: \<^verbatim>\<open>struct spa_buffer\<close> is declared in \<^verbatim>\<open>spa/buffer/buffer.h\<close>,
  which is not under src/. The spec (4.6) describes the buffer descriptor as "the data
  pointer vector, frame count, and stride"; the samples themselves lie in shared memory
  at the addresses the data pointers name.
\<close>

record spa_buffer =
  datas :: "addr list"
  frames :: nat
  stride :: nat

text \<open>\<^verbatim>\<open>struct pw_buffer\<close>: the callback uses its member \<^verbatim>\<open>buffer\<close>, a pointer to the descriptor.\<close>

record pw_buffer =
  buffer :: addr

datatype log_level = Log_error | Log_warn

text \<open>
  The memory the callbacks work on: the \<^verbatim>\<open>pw_buffer\<close> and \<^verbatim>\<open>spa_buffer\<close> objects by address,
  the shared sample memory by byte address, and the lines written by \<^verbatim>\<open>pw_log_*\<close>.
\<close>

record world =
  pw_buffers :: "addr \<Rightarrow> pw_buffer"
  spa_buffers :: "addr \<Rightarrow> spa_buffer"
  samples :: "addr \<Rightarrow> 8 word"
  log :: "(log_level \<times> string) list"

definition pw_log_warn :: "world \<Rightarrow> string \<Rightarrow> world" where
  "pw_log_warn w msg = w\<lparr>log := log w @ [(Log_warn, msg)]\<rparr>"

definition pw_log_error :: "world \<Rightarrow> string \<Rightarrow> world" where
  "pw_log_error w msg = w\<lparr>log := log w @ [(Log_error, msg)]\<rparr>"

datatype events = Core_events | In_stream_events | Out_stream_events

datatype pw_direction = PW_DIRECTION_INPUT | PW_DIRECTION_OUTPUT

datatype pw_stream_flag =
  PW_STREAM_FLAG_AUTOCONNECT | PW_STREAM_FLAG_MAP_BUFFERS | PW_STREAM_FLAG_RT_PROCESS

datatype spa_audio_format = SPA_AUDIO_FORMAT_UNKNOWN | SPA_AUDIO_FORMAT_F32P

datatype spa_audio_flag = SPA_AUDIO_FLAG_UNPOSITIONED

text \<open>\<^verbatim>\<open>SPA_AUDIO_INFO_RAW_INIT\<close> zeroes every member it is not given.\<close>

record spa_audio_info_raw =
  info_format :: spa_audio_format
  info_flags :: "spa_audio_flag set"
  info_rate :: "32 word"
  info_channels :: "32 word"

datatype spa_param = SPA_PARAM_EnumFormat

text \<open>The pod built by \<^verbatim>\<open>spa_format_audio_raw_build\<close>, kept as the values it encodes.\<close>

datatype spa_pod = Format_audio_raw spa_param spa_audio_info_raw

definition spa_format_audio_raw_build :: "spa_param \<Rightarrow> spa_audio_info_raw \<Rightarrow> spa_pod" where
  "spa_format_audio_raw_build param info = Format_audio_raw param info"

record connect_args =
  conn_direction :: pw_direction
  conn_target :: "32 word"
  conn_flags :: "pw_stream_flag set"
  conn_params :: "spa_pod list"

datatype stream_op = Dequeued "addr option" | Queued addr

text \<open>
  Modelled from the spec: \<^verbatim>\<open>struct pw_stream\<close> and its operations live in
  \<^verbatim>\<open>src/pipewire/stream.c\<close>, which is not under src/. A stream is constructed from a name
  and a property dictionary, gets a listener, and is connected with a direction, a
  target, flags and formats. \<open>dequeue_buffer\<close> "acquires the next available buffer from
  the daemon-managed ring" or reports EMPTY; \<open>queue_buffer\<close> "returns a buffer to the
  daemon". \<open>history\<close> records the two calls in the order they are made on the stream.
\<close>

record pw_stream =
  stream_name :: string
  properties :: pw_properties
  stream_listener :: "events option"
  connection :: "connect_args option"
  ring :: "addr list"
  history :: "stream_op list"

definition pw_stream_dequeue_buffer :: "pw_stream \<Rightarrow> addr option \<times> pw_stream" where
  "pw_stream_dequeue_buffer s =
     (case ring s of
        [] \<Rightarrow> (None, s\<lparr>history := history s @ [Dequeued None]\<rparr>)
      | b # bs \<Rightarrow> (Some b, s\<lparr>ring := bs, history := history s @ [Dequeued (Some b)]\<rparr>))"

definition pw_stream_queue_buffer :: "pw_stream \<Rightarrow> addr \<Rightarrow> pw_stream" where
  "pw_stream_queue_buffer s b = s\<lparr>history := history s @ [Queued b]\<rparr>"

section \<open>pw-loopback\<close>

definition DEFAULT_RATE :: "32 word" where
  "DEFAULT_RATE = 48000"

definition DEFAULT_CHANNELS :: "32 word" where
  "DEFAULT_CHANNELS = 2"

definition DEFAULT_CHANNEL_MAP :: string where
  "DEFAULT_CHANNEL_MAP = ''[ FL, FR ]''"

text \<open>
  Constants of headers that are not under src/: \<^verbatim>\<open>SPA_MSEC_PER_SEC\<close> (spa/utils/defs.h),
  \<^verbatim>\<open>PW_ID_CORE\<close> and \<^verbatim>\<open>PW_ID_ANY\<close> (pipewire/core.h), \<^verbatim>\<open>EPIPE\<close> and \<^verbatim>\<open>EINVAL\<close> (errno.h), and
  the property keys of pipewire/keys.h and spa/node/keys.h, by the names the spec gives.
\<close>

definition SPA_MSEC_PER_SEC :: int where
  "SPA_MSEC_PER_SEC = 1000"

definition PW_ID_CORE :: "32 word" where
  "PW_ID_CORE = 0"

definition PW_ID_ANY :: "32 word" where
  "PW_ID_ANY = 0xffffffff"

definition EPIPE :: int where
  "EPIPE = 32"

definition EINVAL :: int where
  "EINVAL = 22"

abbreviation PW_KEY_NODE_TARGET :: string where "PW_KEY_NODE_TARGET \<equiv> ''node.target''"
abbreviation PW_KEY_NODE_GROUP :: string where "PW_KEY_NODE_GROUP \<equiv> ''node.group''"
abbreviation PW_KEY_NODE_LATENCY :: string where "PW_KEY_NODE_LATENCY \<equiv> ''node.latency''"
abbreviation PW_KEY_REMOTE_NAME :: string where "PW_KEY_REMOTE_NAME \<equiv> ''remote.name''"

record pw_main_loop =
  running :: bool

record pw_core =
  core_properties :: pw_properties

text \<open>\<^verbatim>\<open>struct data\<close>; a pointer member is \<open>None\<close> when it is \<^verbatim>\<open>NULL\<close>.\<close>

record data =
  loop :: "pw_main_loop option"
  pw_context :: "unit option"
  core :: "pw_core option"
  core_listener :: "events option"
  opt_group_name :: "string option"
  opt_channel_map :: "string option"
  channels :: "32 word"
  latency :: "32 word"
  capture_props :: "pw_properties option"
  capture :: "pw_stream option"
  capture_listener :: "events option"
  playback_props :: "pw_properties option"
  playback :: "pw_stream option"
  playback_listener :: "events option"

text \<open>
  The operations whose behaviour C leaves undefined, where the program can reach them: a
  read through a \<^verbatim>\<open>NULL\<close> pointer, a signed arithmetic operation whose result does not fit
  its type, and an access beyond the end of an array or of an allocated block. A run that
  reaches one ends there in the model.
\<close>

datatype fault = Null_dereference | Signed_overflow | Out_of_bounds

text \<open>
  \<^verbatim>\<open>capture_process\<close>, the \<^verbatim>\<open>process\<close> member of \<^verbatim>\<open>in_stream_events\<close>. The stream calls
  dereference \<^verbatim>\<open>data->capture\<close> and \<^verbatim>\<open>data->playback\<close>.
\<close>

definition capture_process :: "data \<Rightarrow> world \<Rightarrow> fault + data \<times> world" where
  "capture_process d w =
     (case (capture d, playback d) of
        (Some c, Some p) \<Rightarrow>
          (let (in_buf, c1) = pw_stream_dequeue_buffer c;
               w1 = (if in_buf = None then pw_log_warn w ''out of capture buffers: %m'' else w);
               (out_buf, p1) = pw_stream_dequeue_buffer p;
               w2 = (if out_buf = None then pw_log_warn w1 ''out of playback buffers: %m'' else w1);
               w3 = (case (in_buf, out_buf) of
                       (Some i, Some out) \<Rightarrow>
                         w2\<lparr>spa_buffers := (spa_buffers w2)
                              (buffer (pw_buffers w2 out) := spa_buffers w2 (buffer (pw_buffers w2 i)))\<rparr>
                     | _ \<Rightarrow> w2);
               c2 = (case in_buf of Some i \<Rightarrow> pw_stream_queue_buffer c1 i | None \<Rightarrow> c1);
               p2 = (case out_buf of Some out \<Rightarrow> pw_stream_queue_buffer p1 out | None \<Rightarrow> p1)
           in Inr (d\<lparr>capture := Some c2, playback := Some p2\<rparr>, w3))
      | _ \<Rightarrow> Inl Null_dereference)"

text \<open>The callback invoked \<open>n\<close> times in a row, as the daemon does once per quantum.\<close>

fun process_ticks :: "nat \<Rightarrow> data \<Rightarrow> world \<Rightarrow> fault + data \<times> world" where
  "process_ticks 0 d w = Inr (d, w)"
| "process_ticks (Suc n) d w =
     (case capture_process d w of
        Inl f \<Rightarrow> Inl f
      | Inr (d', w') \<Rightarrow> process_ticks n d' w')"


text \<open>
  What the stream history must look like for the buffer discipline of the spec: a failed
  dequeue is followed by no queue call, a successful one by the queue call of the same
  buffer before anything else happens on the stream.
\<close>

fun paired :: "stream_op list \<Rightarrow> bool" where
  "paired [] = True"
| "paired (Dequeued None # ops) = paired ops"
| "paired (Dequeued (Some b) # Queued b' # ops) = (b = b' \<and> paired ops)"
| "paired _ = False"

text \<open>The calls one invocation of the callback makes on a stream.\<close>

definition tick_ops :: "pw_stream \<Rightarrow> stream_op list" where
  "tick_ops s = (case ring s of [] \<Rightarrow> [Dequeued None] | b # _ \<Rightarrow> [Dequeued (Some b), Queued b])"

subsection \<open>Stream setup\<close>

text \<open>
  What the daemon and the libraries answer in one run of the program: the outcome of every
  call whose implementation is not under src/, and the events the main loop dispatches.
\<close>

datatype signal = SIGINT | SIGTERM

datatype loop_event =
  Signal_event signal
| Core_error_event "32 word" int int string
| Other_event

record env =
  argv0 :: string
  pid :: nat
  client_name :: "string option"
  capture_props_ok :: bool
  playback_props_ok :: bool
  main_loop_ok :: bool
  context_ok :: bool
  core_ok :: bool
  capture_stream_errno :: "int option"
  playback_stream_errno :: "int option"
  capture_connect_res :: int
  playback_connect_res :: int
  loop_events :: "loop_event list"

text \<open>
  \<^verbatim>\<open>pw_stream_new\<close> takes ownership of the dictionary; it returns \<^verbatim>\<open>NULL\<close> with \<^verbatim>\<open>errno\<close> set
  (\<open>Inl\<close>) or the new stream. \<^verbatim>\<open>pw_stream_connect\<close> returns the daemon's answer and, when it
  is not negative, the stream is connected with the arguments given.
\<close>

definition pw_stream_new ::
  "int option \<Rightarrow> pw_core option \<Rightarrow> string \<Rightarrow> pw_properties option \<Rightarrow> int + pw_stream" where
  "pw_stream_new outcome c name props =
     (case outcome of
        Some errno \<Rightarrow> Inl errno
      | None \<Rightarrow> Inr \<lparr>stream_name = name,
                      properties = (case props of None \<Rightarrow> [] | Some p \<Rightarrow> p),
                      stream_listener = None, connection = None, ring = [], history = []\<rparr>)"

definition pw_stream_add_listener :: "pw_stream \<Rightarrow> events \<Rightarrow> pw_stream" where
  "pw_stream_add_listener s ev = s\<lparr>stream_listener := Some ev\<rparr>"

definition pw_stream_connect ::
  "int \<Rightarrow> pw_stream \<Rightarrow> pw_direction \<Rightarrow> 32 word \<Rightarrow> pw_stream_flag set \<Rightarrow> spa_pod list
     \<Rightarrow> int \<times> pw_stream" where
  "pw_stream_connect answer s direction target flags params =
     (if answer < 0 then (answer, s)
      else (answer, s\<lparr>connection := Some \<lparr>conn_direction = direction, conn_target = target,
                                           conn_flags = flags, conn_params = params\<rparr>\<rparr>))"

definition stream_flags :: "pw_stream_flag set" where
  "stream_flags =
     {PW_STREAM_FLAG_AUTOCONNECT} \<union> {PW_STREAM_FLAG_MAP_BUFFERS} \<union> {PW_STREAM_FLAG_RT_PROCESS}"

definition connect_streams :: "env \<Rightarrow> data \<Rightarrow> pw_stream \<Rightarrow> pw_stream \<Rightarrow> int \<times> data" where
  "connect_streams e d c p =
     (let params = [spa_format_audio_raw_build SPA_PARAM_EnumFormat
                      \<lparr>info_format = SPA_AUDIO_FORMAT_F32P,
                       info_flags = {SPA_AUDIO_FLAG_UNPOSITIONED},
                       info_rate = 0,
                       info_channels = channels d\<rparr>];
          (res, c') = pw_stream_connect (capture_connect_res e) c
                        PW_DIRECTION_INPUT PW_ID_ANY stream_flags params
      in if res < 0 then (res, d\<lparr>capture := Some c'\<rparr>)
         else
           (let (res, p') = pw_stream_connect (playback_connect_res e) p
                              PW_DIRECTION_OUTPUT PW_ID_ANY stream_flags params
            in if res < 0 then (res, d\<lparr>capture := Some c', playback := Some p'\<rparr>)
               else (0, d\<lparr>capture := Some c', playback := Some p'\<rparr>)))"

text \<open>
  \<^verbatim>\<open>setup_streams\<close>: both streams are created and given their listeners, then connected
  (\<open>connect_streams\<close> is the second half of the function, from \<^verbatim>\<open>n_params = 0\<close> on).
\<close>

definition setup_streams :: "env \<Rightarrow> data \<Rightarrow> int \<times> data" where
  "setup_streams e d =
     (case pw_stream_new (capture_stream_errno e) (core d) ''loopback capture'' (capture_props d) of
        Inl errno \<Rightarrow> (- errno, d\<lparr>capture := None, capture_props := None\<rparr>)
      | Inr c0 \<Rightarrow>
          (let c = pw_stream_add_listener c0 In_stream_events;
               d1 = d\<lparr>capture := Some c, capture_props := None,
                      capture_listener := Some In_stream_events\<rparr>
           in case pw_stream_new (playback_stream_errno e) (core d1) ''loopback playback''
                     (playback_props d1) of
                Inl errno \<Rightarrow> (- errno, d1\<lparr>playback := None, playback_props := None\<rparr>)
              | Inr p0 \<Rightarrow>
                  (let p = pw_stream_add_listener p0 Out_stream_events;
                       d2 = d1\<lparr>playback := Some p, playback_props := None,
                               playback_listener := Some Out_stream_events\<rparr>
                   in connect_streams e d2 c p)))"

subsection \<open>The core listener and the main loop\<close>

definition pw_main_loop_quit :: "data \<Rightarrow> data" where
  "pw_main_loop_quit d = d\<lparr>loop := map_option (\<lambda>l. l\<lparr>running := False\<rparr>) (loop d)\<rparr>"

text \<open>A log line is kept as its level and format string.\<close>

definition on_core_error :: "data \<Rightarrow> world \<Rightarrow> 32 word \<Rightarrow> int \<Rightarrow> int \<Rightarrow> string \<Rightarrow> data \<times> world" where
  "on_core_error d w id' seq res message =
     (let w' = pw_log_error w ''error id:%u seq:%d res:%d (%s): %s''
      in if id' = PW_ID_CORE \<and> res = - EPIPE then (pw_main_loop_quit d, w') else (d, w'))"

definition do_quit :: "data \<Rightarrow> signal \<Rightarrow> data" where
  "do_quit d signal_number = pw_main_loop_quit d"

text \<open>
  Modelled from the spec: the main loop (\<^verbatim>\<open>src/pipewire/main-loop.c\<close>, not under src/) is "a
  single-threaded cooperative dispatcher"; \<open>run()\<close> "blocks until quit()", \<open>quit()\<close> "sets
  the terminate flag" and handlers "run in the loop thread". The loop dispatches the events
  of the run in order, each to the handler \<^verbatim>\<open>main\<close> registered for it, and returns after the
  first one that called \<^verbatim>\<open>pw_main_loop_quit\<close>; when no event does, it never returns (\<open>None\<close>).
\<close>

definition dispatch :: "loop_event \<Rightarrow> data \<Rightarrow> world \<Rightarrow> data \<times> world" where
  "dispatch ev d w =
     (case ev of
        Signal_event sig \<Rightarrow> (do_quit d sig, w)
      | Core_error_event id' seq res message \<Rightarrow>
          (if core_listener d = Some Core_events then on_core_error d w id' seq res message
           else (d, w))
      | Other_event \<Rightarrow> (d, w))"

definition is_running :: "data \<Rightarrow> bool" where
  "is_running d = (case loop d of Some l \<Rightarrow> running l | None \<Rightarrow> False)"

fun loop_iterate :: "data \<Rightarrow> world \<Rightarrow> loop_event list \<Rightarrow> (data \<times> world) option" where
  "loop_iterate d w [] = None"
| "loop_iterate d w (ev # evs) =
     (case dispatch ev d w of
        (d', w') \<Rightarrow> if is_running d' then loop_iterate d' w' evs else Some (d', w'))"

definition pw_main_loop_run :: "data \<Rightarrow> world \<Rightarrow> loop_event list \<Rightarrow> (data \<times> world) option" where
  "pw_main_loop_run d w evs =
     loop_iterate (d\<lparr>loop := map_option (\<lambda>l. l\<lparr>running := True\<rparr>) (loop d)\<rparr>) w evs"

subsection \<open>Options and \<^verbatim>\<open>main\<close>\<close>

text \<open>
  What \<^verbatim>\<open>getopt_long\<close> returns, call after call: the option character with its argument;
  \<open>Opt_unknown\<close> is the \<^verbatim>\<open>'?'\<close> of an option that is not in the table.
\<close>

datatype opt =
  Opt_h | Opt_V | Opt_r string | Opt_g string | Opt_c string | Opt_m string | Opt_l string
| Opt_C string | Opt_P string | Opt_i string | Opt_o string | Opt_unknown

definition update_string :: "string \<Rightarrow> pw_properties \<Rightarrow> pw_properties" where
  "update_string str props =
     (case pw_properties_update_string props str of Inl err \<Rightarrow> props | Inr props' \<Rightarrow> props')"

text \<open>
  The latency of \<^verbatim>\<open>-l\<close>: \<^verbatim>\<open>atoi(optarg) * DEFAULT_RATE\<close> is a product of two \<^verbatim>\<open>int\<close>s, which is
  undefined when it does not fit a 32-bit \<^verbatim>\<open>int\<close> (\<open>None\<close>); otherwise the division by
  \<^verbatim>\<open>SPA_MSEC_PER_SEC\<close> is signed and truncates, and the quotient is converted to the
  \<^verbatim>\<open>uint32_t\<close> of the member \<^verbatim>\<open>latency\<close>.
\<close>

definition latency_frames :: "string \<Rightarrow> 32 word option" where
  "latency_frames optarg =
     (let product = sint (atoi optarg) * sint DEFAULT_RATE
      in if product < - (2 ^ 31) \<or> 2 ^ 31 \<le> product then None
         else Some (word_of_int (c_div product SPA_MSEC_PER_SEC)))"

text \<open>
  How a run ends when it does: \<^verbatim>\<open>main\<close> returns a value, or the run reaches an operation
  with undefined behaviour.
\<close>

datatype ending = Return int | Undefined fault

text \<open>
  The \<^verbatim>\<open>while\<close> loop over \<^verbatim>\<open>getopt_long\<close> with its \<^verbatim>\<open>switch\<close>; \<open>Inl\<close> is the end of the run
  inside the loop (a \<^verbatim>\<open>return\<close> from \<^verbatim>\<open>main\<close>, or the undefined product of \<^verbatim>\<open>-l\<close>), the second
  component is \<^verbatim>\<open>opt_remote\<close>.
\<close>

fun parse_options :: "opt list \<Rightarrow> data \<Rightarrow> string option \<Rightarrow> ending + data \<times> string option" where
  "parse_options [] d r = Inr (d, r)"
| "parse_options (Opt_h # os) d r = Inl (Return 0)"
| "parse_options (Opt_V # os) d r = Inl (Return 0)"
| "parse_options (Opt_r optarg # os) d r = parse_options os d (Some optarg)"
| "parse_options (Opt_g optarg # os) d r = parse_options os (d\<lparr>opt_group_name := Some optarg\<rparr>) r"
| "parse_options (Opt_c optarg # os) d r = parse_options os (d\<lparr>channels := atoi optarg\<rparr>) r"
| "parse_options (Opt_m optarg # os) d r = parse_options os (d\<lparr>opt_channel_map := Some optarg\<rparr>) r"
| "parse_options (Opt_l optarg # os) d r =
     (case latency_frames optarg of
        None \<Rightarrow> Inl (Undefined Signed_overflow)
      | Some l \<Rightarrow> parse_options os (d\<lparr>latency := l\<rparr>) r)"
| "parse_options (Opt_C optarg # os) d r =
     parse_options os
       (d\<lparr>capture_props :=
            map_option (\<lambda>p. pw_properties_set p PW_KEY_NODE_TARGET (Some optarg)) (capture_props d)\<rparr>) r"
| "parse_options (Opt_P optarg # os) d r =
     parse_options os
       (d\<lparr>playback_props :=
            map_option (\<lambda>p. pw_properties_set p PW_KEY_NODE_TARGET (Some optarg)) (playback_props d)\<rparr>) r"
| "parse_options (Opt_i optarg # os) d r =
     parse_options os (d\<lparr>capture_props := map_option (update_string optarg) (capture_props d)\<rparr>) r"
| "parse_options (Opt_o optarg # os) d r =
     parse_options os (d\<lparr>playback_props := map_option (update_string optarg) (playback_props d)\<rparr>) r"
| "parse_options (Opt_unknown # os) d r = Inl (Return (- 1))"

text \<open>\<^verbatim>\<open>struct data data = { 0 }\<close>.\<close>

definition data_zero :: data where
  "data_zero =
     \<lparr>loop = None, pw_context = None, core = None, core_listener = None,
      opt_group_name = None, opt_channel_map = None, channels = 0, latency = 0,
      capture_props = None, capture = None, capture_listener = None,
      playback_props = None, playback = None, playback_listener = None\<rparr>"

text \<open>The start of \<^verbatim>\<open>main\<close>, up to the option loop.\<close>

definition init_data :: "env \<Rightarrow> data" where
  "init_data e =
     (let d = data_zero\<lparr>channels := DEFAULT_CHANNELS,
                         opt_channel_map := Some DEFAULT_CHANNEL_MAP,
                         opt_group_name := client_name e\<rparr>;
          cname = argv0 e @ ''-'' @ utoa (pid e);
          d = (if 0 < length cname then d\<lparr>opt_group_name := Some (take 255 cname)\<rparr> else d)
      in d\<lparr>capture_props := (if capture_props_ok e then Some [] else None),
           playback_props := (if playback_props_ok e then Some [] else None)\<rparr>)"

text \<open>The two property blocks of \<^verbatim>\<open>main\<close> between the context and the core connection.\<close>

definition set_group :: "data \<Rightarrow> data" where
  "set_group d =
     (case opt_group_name d of
        Some g \<Rightarrow>
          d\<lparr>capture_props := map_option (\<lambda>p. pw_properties_set p PW_KEY_NODE_GROUP (Some g)) (capture_props d),
            playback_props := map_option (\<lambda>p. pw_properties_set p PW_KEY_NODE_GROUP (Some g)) (playback_props d)\<rparr>
      | None \<Rightarrow> d)"

definition latency_string :: "32 word \<Rightarrow> string" where
  "latency_string l = utoa (unat l) @ ''/'' @ utoa (unat DEFAULT_RATE)"

definition set_latency :: "data \<Rightarrow> data" where
  "set_latency d =
     (if latency d \<noteq> 0 then
        d\<lparr>capture_props :=
             map_option (\<lambda>p. pw_properties_set p PW_KEY_NODE_LATENCY (Some (latency_string (latency d))))
               (capture_props d),
          playback_props :=
             map_option (\<lambda>p. pw_properties_set p PW_KEY_NODE_LATENCY (Some (latency_string (latency d))))
               (playback_props d)\<rparr>
      else d)"

text \<open>
  \<^verbatim>\<open>main\<close> from the main loop on. The result is how the run ends (\<open>None\<close> when the main
  loop never returns), with \<^verbatim>\<open>data\<close> and the memory as they are at the label \<^verbatim>\<open>exit\<close>,
  before the objects are destroyed. The result of \<^verbatim>\<open>setup_streams\<close> is not used.
\<close>

definition run_main ::
  "env \<Rightarrow> data \<Rightarrow> string option \<Rightarrow> world \<Rightarrow> ending option \<times> data \<times> world" where
  "run_main e d0 opt_remote w =
     (let d1 = d0\<lparr>loop := (if main_loop_ok e then Some \<lparr>running = False\<rparr> else None)\<rparr>
      in if loop d1 = None then (Some (Return (- 1)), d1, w)
         else
           (let d2 = d1\<lparr>pw_context := (if context_ok e then Some () else None)\<rparr>
            in if pw_context d2 = None then (Some (Return (- 1)), d2, w)
               else
                 (let d3 = set_latency (set_group d2);
                      d4 = d3\<lparr>core := (if core_ok e
                                        then Some \<lparr>core_properties =
                                                    pw_properties_set [] PW_KEY_REMOTE_NAME opt_remote\<rparr>
                                        else None)\<rparr>
                  in if core d4 = None then (Some (Return (- 1)), d4, w)
                     else
                       (let d5 = d4\<lparr>core_listener := Some Core_events\<rparr>;
                            d6 = snd (setup_streams e d5)
                        in case pw_main_loop_run d6 w (loop_events e) of
                             None \<Rightarrow> (None, d6, w)
                           | Some (d7, w') \<Rightarrow> (Some (Return 0), d7, w')))))"

definition main :: "env \<Rightarrow> opt list \<Rightarrow> world \<Rightarrow> ending option \<times> data \<times> world" where
  "main e opts w =
     (let d = init_data e
      in if capture_props d = None \<or> playback_props d = None then (Some (Return (- 1)), d, w)
         else case parse_options opts d None of
                Inl res \<Rightarrow> (Some res, d, w)
              | Inr (d', opt_remote) \<Rightarrow> run_main e d' opt_remote w)"


section \<open>The null sink module\<close>

abbreviation PW_KEY_MODULE_AUTHOR :: string where "PW_KEY_MODULE_AUTHOR \<equiv> ''module.author''"
abbreviation PW_KEY_MODULE_DESCRIPTION :: string where "PW_KEY_MODULE_DESCRIPTION \<equiv> ''module.description''"
abbreviation PW_KEY_MODULE_USAGE :: string where "PW_KEY_MODULE_USAGE \<equiv> ''module.usage''"
abbreviation PW_KEY_MODULE_VERSION :: string where "PW_KEY_MODULE_VERSION \<equiv> ''module.version''"
abbreviation PW_KEY_NODE_NAME :: string where "PW_KEY_NODE_NAME \<equiv> ''node.name''"
abbreviation PW_KEY_NODE_DESCRIPTION :: string where "PW_KEY_NODE_DESCRIPTION \<equiv> ''node.description''"
abbreviation PW_KEY_MEDIA_CLASS :: string where "PW_KEY_MEDIA_CLASS \<equiv> ''media.class''"
abbreviation PW_KEY_FACTORY_NAME :: string where "PW_KEY_FACTORY_NAME \<equiv> ''factory.name''"
abbreviation PW_KEY_OBJECT_LINGER :: string where "PW_KEY_OBJECT_LINGER \<equiv> ''object.linger''"
abbreviation SPA_KEY_AUDIO_CHANNELS :: string where "SPA_KEY_AUDIO_CHANNELS \<equiv> ''audio.channels''"
abbreviation SPA_KEY_AUDIO_RATE :: string where "SPA_KEY_AUDIO_RATE \<equiv> ''audio.rate''"
abbreviation SPA_KEY_AUDIO_POSITION :: string where "SPA_KEY_AUDIO_POSITION \<equiv> ''audio.position''"

definition SPA_ID_INVALID :: "32 word" where
  "SPA_ID_INVALID = 0xffffffff"

definition SPA_AUDIO_CHANNEL_UNKNOWN :: "32 word" where
  "SPA_AUDIO_CHANNEL_UNKNOWN = 0"

text \<open>
  \<^verbatim>\<open>struct channel_map\<close> is declared in the pulse server's sources, which are not under src/:
  a channel count and an array of positions. The array is kept as a function of the index;
  the number of its elements is the parameter \<open>CHANNELS_MAX\<close> below (the spec's
  \<^verbatim>\<open>MAX_CHANNELS\<close>), and an access at an index from there on is an access beyond the array.
\<close>

record channel_map =
  cm_channels :: "32 word"
  cm_map :: "nat \<Rightarrow> 32 word"

text \<open>\<^verbatim>\<open>impl->defs.sample_spec.channels\<close> and \<^verbatim>\<open>impl->defs.channel_map\<close>.\<close>

record impl =
  defs_sample_spec_channels :: "32 word"
  defs_channel_map :: channel_map

text \<open>
  What the function uses and src/ does not hold: the macros \<^verbatim>\<open>PACKAGE_VERSION\<close>,
  \<^verbatim>\<open>CHANNEL_MAP_INIT\<close> and \<^verbatim>\<open>CHANNELS_MAX\<close>, the helpers \<^verbatim>\<open>channel_map_parse\<close> and \<^verbatim>\<open>channel_id2name\<close>, and the
  outcome of the two allocations (\<^verbatim>\<open>pw_properties_new_dict\<close>, and \<^verbatim>\<open>module_new\<close> with the
  \<^verbatim>\<open>errno\<close> it sets when it fails).
\<close>

record externs =
  PACKAGE_VERSION :: string
  CHANNEL_MAP_INIT :: channel_map
  CHANNELS_MAX :: nat
  channel_map_parse :: "string \<Rightarrow> channel_map \<Rightarrow> channel_map"
  channel_id2name :: "32 word \<Rightarrow> string"
  properties_new_ok :: bool
  module_new_errno :: "int option"

record module_null_sink_data =
  proxy :: "unit option"
  global_id :: "32 word"

datatype module_methods = Module_null_sink_methods

record module =
  methods :: module_methods
  props :: "pw_properties option"
  user_data :: module_null_sink_data

text \<open>
  The three ways \<^verbatim>\<open>create_module_null_sink\<close> ends: it returns the module; it returns
  \<^verbatim>\<open>NULL\<close> with \<^verbatim>\<open>errno\<close> set, after \<^verbatim>\<open>pw_properties_free\<close> of the dictionary if there is
  one; or it reaches an operation with undefined behaviour.
\<close>

datatype outcome =
  is_module: Returned_module (the_module: module)
| is_NULL: Returned_NULL (errno: int) (freed: "pw_properties option")
| Fault fault

definition module_null_sink_info :: "externs \<Rightarrow> (string \<times> string) list" where
  "module_null_sink_info x =
     [(PW_KEY_MODULE_AUTHOR, ''Wim Taymans <wim.taymans@gmail.com>''),
      (PW_KEY_MODULE_DESCRIPTION, ''A NULL sink''),
      (PW_KEY_MODULE_USAGE,
         ''sink_name=<name of sink> '' @
         ''sink_properties=<properties for the sink> '' @
         ''format=<sample format> '' @
         ''rate=<sample rate> '' @
         ''channels=<number of channels> '' @
         ''channel_map=<channel map>''),
      (PW_KEY_MODULE_VERSION, PACKAGE_VERSION x)]"

definition pw_properties_new_dict :: "(string \<times> string) list \<Rightarrow> pw_properties" where
  "pw_properties_new_dict items = merge_items [] items"

text \<open>
  Modelled from the spec: \<^verbatim>\<open>add_props\<close> is defined in the pulse server's sources, which are
  not under src/. It merges a bag of \<open>k=v\<close> items into the dictionary, as the spec's
  \<open>update_from_string\<close> does, and returns nothing.
\<close>

definition add_props :: "pw_properties \<Rightarrow> string \<Rightarrow> pw_properties" where
  "add_props ps str = (case parse_bag str of None \<Rightarrow> ps | Some kvs \<Rightarrow> merge_items ps kvs)"

text \<open>The blocks of \<^verbatim>\<open>create_module_null_sink\<close>, one per \<^verbatim>\<open>if\<close> of the source, in its order.\<close>

definition consume_sink_name :: "pw_properties \<Rightarrow> pw_properties" where
  "consume_sink_name ps =
     (case pw_properties_get ps ''sink_name'' of
        Some str \<Rightarrow>
          pw_properties_set (pw_properties_set ps PW_KEY_NODE_NAME (Some str)) ''sink_name'' None
      | None \<Rightarrow> pw_properties_set ps PW_KEY_NODE_NAME (Some ''null''))"

definition consume_sink_properties :: "pw_properties \<Rightarrow> pw_properties" where
  "consume_sink_properties ps =
     (case pw_properties_get ps ''sink_properties'' of
        Some str \<Rightarrow> pw_properties_set (add_props ps str) ''sink_properties'' None
      | None \<Rightarrow> ps)"

definition consume_channels :: "impl \<Rightarrow> pw_properties \<Rightarrow> 32 word \<times> pw_properties" where
  "consume_channels i ps =
     (case pw_properties_get ps ''channels'' of
        Some str \<Rightarrow>
          (atoi str,
           pw_properties_set (pw_properties_set ps SPA_KEY_AUDIO_CHANNELS (Some str)) ''channels'' None)
      | None \<Rightarrow>
          (defs_sample_spec_channels i,
           pw_properties_set ps SPA_KEY_AUDIO_CHANNELS (Some (utoa (unat (defs_sample_spec_channels i))))))"

definition consume_rate :: "pw_properties \<Rightarrow> pw_properties" where
  "consume_rate ps =
     (case pw_properties_get ps ''rate'' of
        Some str \<Rightarrow> pw_properties_set (pw_properties_set ps SPA_KEY_AUDIO_RATE (Some str)) ''rate'' None
      | None \<Rightarrow> ps)"

text \<open>
  The loop \<^verbatim>\<open>for (i = 0; i < channels; i++) map.map[i] = SPA_AUDIO_CHANNEL_UNKNOWN\<close> stores
  at every index below \<^verbatim>\<open>channels\<close>; with more channels than the array has elements it
  stores beyond the array.
\<close>

definition unknown_map :: "nat \<Rightarrow> channel_map \<Rightarrow> 32 word \<Rightarrow> fault + channel_map" where
  "unknown_map bound m chans =
     (if bound < unat chans then Inl Out_of_bounds
      else Inr (m\<lparr>cm_map := fold (\<lambda>i f. f(i := SPA_AUDIO_CHANNEL_UNKNOWN)) [0..<unat chans] (cm_map m),
                 cm_channels := chans\<rparr>))"

definition consume_channel_map ::
  "externs \<Rightarrow> impl \<Rightarrow> 32 word \<Rightarrow> pw_properties \<Rightarrow> fault + channel_map \<times> pw_properties" where
  "consume_channel_map x i chans ps =
     (case pw_properties_get ps ''channel_map'' of
        Some str \<Rightarrow>
          Inr (channel_map_parse x str (CHANNEL_MAP_INIT x), pw_properties_set ps ''channel_map'' None)
      | None \<Rightarrow>
          (if chans = cm_channels (defs_channel_map i) then Inr (defs_channel_map i, ps)
           else (case unknown_map (CHANNELS_MAX x) (CHANNEL_MAP_INIT x) chans of
                   Inl f \<Rightarrow> Inl f
                 | Inr m \<Rightarrow> Inr (m, ps))))"

text \<open>
  The position string is written into a block of \<open>n\<close> bytes, \<^verbatim>\<open>alloca(map.channels * 6)\<close>,
  the product taken in 32 bits.
  Every \<^verbatim>\<open>snprintf(p, 6, ...)\<close> stores at most five characters and a terminating zero at
  the offset \<open>p\<close>, beyond the block when they do not fit in it, and \<open>p\<close> advances by the
  full length of the piece. A piece of at most five characters is continued by the next
  one at its zero; a longer piece ends the string \<^verbatim>\<open>s\<close> after its first five characters.
  The loop reads \<^verbatim>\<open>map.map[i]\<close> at every index below \<^verbatim>\<open>map.channels\<close>.
\<close>

fun snprintf_pieces :: "nat \<Rightarrow> nat \<Rightarrow> string list \<Rightarrow> fault + string" where
  "snprintf_pieces n p [] = Inr []"
| "snprintf_pieces n p (piece # pieces) =
     (if n < p + min (length piece) 5 + 1 then Inl Out_of_bounds
      else case snprintf_pieces n (p + length piece) pieces of
             Inl f \<Rightarrow> Inl f
           | Inr rest \<Rightarrow> Inr (if length piece < 6 then piece @ rest else take 5 piece))"

definition position_string :: "externs \<Rightarrow> channel_map \<Rightarrow> fault + string" where
  "position_string x m =
     (if CHANNELS_MAX x < unat (cm_channels m) then Inl Out_of_bounds
      else snprintf_pieces (unat (cm_channels m * 6)) 0
             (map (\<lambda>i. (if i = 0 then [] else '','') @ channel_id2name x (cm_map m i))
                [0..<unat (cm_channels m)]))"

definition set_position :: "externs \<Rightarrow> channel_map \<Rightarrow> pw_properties \<Rightarrow> fault + pw_properties" where
  "set_position x m ps =
     (if 0 < cm_channels m
      then (case position_string x m of
              Inl f \<Rightarrow> Inl f
            | Inr str \<Rightarrow> Inr (pw_properties_set ps SPA_KEY_AUDIO_POSITION (Some str)))
      else Inr ps)"

definition set_media_class :: "pw_properties \<Rightarrow> pw_properties" where
  "set_media_class ps =
     (if pw_properties_get ps PW_KEY_MEDIA_CLASS = None
      then pw_properties_set ps PW_KEY_MEDIA_CLASS (Some ''Audio/Sink'')
      else ps)"

definition set_description :: "pw_properties \<Rightarrow> fault + pw_properties" where
  "set_description ps =
     (case pw_properties_get ps ''device.description'' of
        Some str \<Rightarrow>
          Inr (pw_properties_set (pw_properties_set ps PW_KEY_NODE_DESCRIPTION (Some str))
                 ''device.description'' None)
      | None \<Rightarrow>
          (case pw_properties_get ps PW_KEY_NODE_NAME of
             None \<Rightarrow> Inl Null_dereference
           | Some name \<Rightarrow>
               (let class = pw_properties_get ps PW_KEY_MEDIA_CLASS
                in Inr (pw_properties_set ps PW_KEY_NODE_DESCRIPTION
                          (Some (name @ (if name = [] then [] else '' '') @
                                 (case class of Some c \<Rightarrow> c | None \<Rightarrow> []) @
                                 (case class of Some c \<Rightarrow> if c \<noteq> [] then '' '' else [] | None \<Rightarrow> []) @
                                 ''sink''))))))"

definition finish_module :: "externs \<Rightarrow> pw_properties \<Rightarrow> outcome" where
  "finish_module x ps0 =
     (let ps1 = pw_properties_set ps0 PW_KEY_FACTORY_NAME (Some ''support.null-audio-sink'');
          ps2 = pw_properties_set ps1 PW_KEY_OBJECT_LINGER (Some ''true'')
      in case module_new_errno x of
           Some e \<Rightarrow> Returned_NULL e (Some ps2)
         | None \<Rightarrow>
             Returned_module
               \<lparr>methods = Module_null_sink_methods, props = Some ps2,
                user_data = \<lparr>proxy = None, global_id = SPA_ID_INVALID\<rparr>\<rparr>)"

text \<open>
  The first half of \<^verbatim>\<open>create_module_null_sink\<close>. \<open>initial_props\<close> is the dictionary after
  the argument string is added, \<open>arguments_dict\<close> the dictionary after \<^verbatim>\<open>sink_name\<close> and
  \<^verbatim>\<open>sink_properties\<close> are consumed, and \<open>parse_arguments\<close> gives the channel count, the
  channel map and the dictionary as they are when the map is compared with the count.
\<close>

definition initial_props :: "externs \<Rightarrow> string option \<Rightarrow> pw_properties" where
  "initial_props x argument =
     (let ps0 = pw_properties_new_dict (module_null_sink_info x)
      in case argument of Some a \<Rightarrow> add_props ps0 a | None \<Rightarrow> ps0)"

definition arguments_dict :: "externs \<Rightarrow> string option \<Rightarrow> pw_properties" where
  "arguments_dict x argument = consume_sink_properties (consume_sink_name (initial_props x argument))"

definition parse_arguments ::
  "externs \<Rightarrow> impl \<Rightarrow> string option \<Rightarrow> fault + 32 word \<times> channel_map \<times> pw_properties" where
  "parse_arguments x i argument =
     (let ps3 = arguments_dict x argument;
          (chans, ps4) = consume_channels i ps3;
          ps5 = consume_rate ps4
      in case consume_channel_map x i chans ps5 of
           Inl f \<Rightarrow> Inl f
         | Inr (m, ps6) \<Rightarrow> Inr (chans, m, ps6))"

definition create_module_null_sink :: "externs \<Rightarrow> impl \<Rightarrow> string option \<Rightarrow> outcome" where
  "create_module_null_sink x i argument =
     (if \<not> properties_new_ok x then Returned_NULL EINVAL None
      else
        (case parse_arguments x i argument of
           Inl f \<Rightarrow> Fault f
         | Inr (chans, m, ps) \<Rightarrow>
             if cm_channels m \<noteq> chans then Returned_NULL EINVAL (Some ps)
             else
               (case set_position x m ps of
                  Inl f \<Rightarrow> Fault f
                | Inr ps1 \<Rightarrow>
                    (case set_description (set_media_class ps1) of
                       Inl f \<Rightarrow> Fault f
                     | Inr ps' \<Rightarrow> finish_module x ps'))))"

section \<open>Notions used to state the properties\<close>

text \<open>The format both streams are offered: planar float-32, unpositioned, \<open>chans\<close> channels.\<close>

definition the_format :: "32 word \<Rightarrow> spa_pod" where
  "the_format chans = Format_audio_raw SPA_PARAM_EnumFormat
     \<lparr>info_format = SPA_AUDIO_FORMAT_F32P, info_flags = {SPA_AUDIO_FLAG_UNPOSITIONED},
      info_rate = 0, info_channels = chans\<rparr>"

text \<open>\<^verbatim>\<open>data\<close> as \<^verbatim>\<open>main\<close> hands it to \<^verbatim>\<open>setup_streams\<close> when every call before succeeded.\<close>

definition pre_setup :: "data \<Rightarrow> string option \<Rightarrow> data" where
  "pre_setup d r =
     (set_latency (set_group (d\<lparr>loop := Some \<lparr>running = False\<rparr>, pw_context := Some ()\<rparr>)))
       \<lparr>core := Some \<lparr>core_properties = pw_properties_set [] PW_KEY_REMOTE_NAME r\<rparr>,
        core_listener := Some Core_events\<rparr>"

text \<open>
  The value of key \<open>k\<close> a stream is constructed with, from \<^verbatim>\<open>data\<close> and the dictionary as
  the option loop left them.
\<close>

definition engine_value :: "data \<Rightarrow> pw_properties \<Rightarrow> string \<Rightarrow> string option" where
  "engine_value d0 ps k =
     (if k = PW_KEY_NODE_LATENCY \<and> latency d0 \<noteq> 0 then Some (latency_string (latency d0))
      else if k = PW_KEY_NODE_GROUP then opt_group_name d0
      else pw_properties_get ps k)"



text \<open>
  The option list with the argument of every \<^verbatim>\<open>-m\<close> replaced by \<open>m\<close>, and the result of
  the option loop with the stored channel map replaced.
\<close>

fun with_map :: "string \<Rightarrow> opt \<Rightarrow> opt" where
  "with_map m (Opt_m a) = Opt_m m"
| "with_map m opt = opt"

definition put_map ::
  "string option \<Rightarrow> ending + data \<times> string option \<Rightarrow> ending + data \<times> string option" where
  "put_map y res =
     (case res of Inl c \<Rightarrow> Inl c | Inr (d, r) \<Rightarrow> Inr (d\<lparr>opt_channel_map := y\<rparr>, r))"

text \<open>The items of the \<^verbatim>\<open>sink_properties\<close> argument of the null sink, if it has one.\<close>

definition sink_properties_items :: "pw_properties \<Rightarrow> (string \<times> string) list" where
  "sink_properties_items ps =
     (case pw_properties_get ps ''sink_properties'' of
        None \<Rightarrow> []
      | Some str \<Rightarrow> (case parse_bag str of None \<Rightarrow> [] | Some kvs \<Rightarrow> kvs))"

text \<open>
  The value under key \<open>k\<close> in the dictionary when the channel map is compared with the
  channel count, and in the dictionary of a module that was created.
\<close>

definition parsed_value :: "externs \<Rightarrow> impl \<Rightarrow> string option \<Rightarrow> string \<Rightarrow> string option" where
  "parsed_value x i argument k =
     (if k = ''channels'' \<or> k = ''rate'' \<or> k = ''channel_map'' then None
      else if k = SPA_KEY_AUDIO_CHANNELS
        then Some (case pw_properties_get (arguments_dict x argument) ''channels'' of
                     Some str \<Rightarrow> str | None \<Rightarrow> utoa (unat (defs_sample_spec_channels i)))
      else if k = SPA_KEY_AUDIO_RATE
        then (case pw_properties_get (arguments_dict x argument) ''rate'' of
                Some str \<Rightarrow> Some str
              | None \<Rightarrow> pw_properties_get (arguments_dict x argument) SPA_KEY_AUDIO_RATE)
      else pw_properties_get (arguments_dict x argument) k)"

definition final_value :: "externs \<Rightarrow> impl \<Rightarrow> string option \<Rightarrow> string \<Rightarrow> string option" where
  "final_value x i argument k =
     (if k = PW_KEY_OBJECT_LINGER then Some ''true''
      else if k = PW_KEY_FACTORY_NAME then Some ''support.null-audio-sink''
      else if k = PW_KEY_MEDIA_CLASS \<and>
              pw_properties_get (arguments_dict x argument) PW_KEY_MEDIA_CLASS = None
        then Some ''Audio/Sink''
      else parsed_value x i argument k)"

section \<open>Example inputs\<close>

text \<open>
  A memory with a descriptor of 256 frames for every buffer and the byte \<open>0x55\<close> in every
  sample, and the two streams of \<^verbatim>\<open>setup_streams\<close> with given rings of buffers.
\<close>

definition example_world :: world where
  "example_world =
     \<lparr>pw_buffers = (\<lambda>a. \<lparr>buffer = 10 * a\<rparr>),
      spa_buffers = (\<lambda>a. \<lparr>datas = [100 * a], frames = 256, stride = 4\<rparr>),
      samples = (\<lambda>a. 0x55),
      log = []\<rparr>"

definition example_stream :: "string \<Rightarrow> events \<Rightarrow> addr list \<Rightarrow> pw_stream" where
  "example_stream name ev bufs =
     \<lparr>stream_name = name, properties = [], stream_listener = Some ev, connection = None,
      ring = bufs, history = []\<rparr>"

definition example_data :: "addr list \<Rightarrow> addr list \<Rightarrow> data" where
  "example_data cbufs pbufs =
     data_zero\<lparr>capture := Some (example_stream ''loopback capture'' In_stream_events cbufs),
               playback := Some (example_stream ''loopback playback'' Out_stream_events pbufs)\<rparr>"

text \<open>A run in which every call succeeds and the user ends the program with \<^verbatim>\<open>SIGINT\<close>.\<close>

definition example_env :: env where
  "example_env =
     \<lparr>argv0 = ''pw-loopback'', pid = 4242, client_name = Some ''pw-loopback'',
      capture_props_ok = True, playback_props_ok = True, main_loop_ok = True,
      context_ok = True, core_ok = True,
      capture_stream_errno = None, playback_stream_errno = None,
      capture_connect_res = 0, playback_connect_res = 0,
      loop_events = [Signal_event SIGINT]\<rparr>"

text \<open>A pulse server whose defaults are two channels, front left and front right.\<close>

definition example_externs :: externs where
  "example_externs =
     \<lparr>PACKAGE_VERSION = ''0.3.20'',
      CHANNEL_MAP_INIT = \<lparr>cm_channels = 0, cm_map = (\<lambda>i. 0)\<rparr>,
      CHANNELS_MAX = 64,
      channel_map_parse = (\<lambda>str m. m\<lparr>cm_channels := 1, cm_map := (\<lambda>i. 3)\<rparr>),
      channel_id2name = (\<lambda>c. if c = 3 then ''FL'' else if c = 4 then ''FR'' else ''UNK''),
      properties_new_ok = True,
      module_new_errno = None\<rparr>"

definition example_impl :: impl where
  "example_impl =
     \<lparr>defs_sample_spec_channels = 2,
      defs_channel_map = \<lparr>cm_channels = 2, cm_map = (\<lambda>i. if i = 0 then 3 else 4)\<rparr>\<rparr>"

text \<open>
  A run in which the daemon closes the connection: after an unrelated event and an error
  of another object, the core reports \<^verbatim>\<open>-EPIPE\<close>.
\<close>

definition pipe_env :: env where
  "pipe_env = example_env\<lparr>loop_events :=
     [Other_event, Core_error_event 7 0 (- EPIPE) ''stream gone'',
      Core_error_event PW_ID_CORE 0 (- EPIPE) ''connection closed'']\<rparr>"

text \<open>A run in which the daemon answers \<open>-2\<close> to the connect of the capture stream.\<close>

definition refused_env :: env where
  "refused_env = example_env\<lparr>capture_connect_res := - 2\<rparr>"

definition running_data :: data where
  "running_data = data_zero\<lparr>loop := Some \<lparr>running = True\<rparr>, core_listener := Some Core_events\<rparr>"


section \<open>Properties\<close>

subsection \<open>The realtime callback\<close>

lemma paired_append: "paired xs \<Longrightarrow> paired ys \<Longrightarrow> paired (xs @ ys)"
  by (induction xs rule: paired.induct) auto

lemma paired_tick_ops: "paired (tick_ops s)"
  by (simp add: tick_ops_def split: list.splits)

lemma capture_process_history:
  assumes "capture d = Some c" "playback d = Some p"
  shows "\<exists>d' w' c' p'. capture_process d w = Inr (d', w') \<and> capture d' = Some c' \<and> playback d' = Some p'
     \<and> history c' = history c @ tick_ops c \<and> history p' = history p @ tick_ops p"
  using assms
  by (auto simp: capture_process_def tick_ops_def pw_stream_dequeue_buffer_def pw_stream_queue_buffer_def
      split: prod.splits list.splits option.splits)

lemma process_ticks_paired:
  "capture d = Some c \<Longrightarrow> playback d = Some p \<Longrightarrow> paired (history c) \<Longrightarrow> paired (history p) \<Longrightarrow>
   \<exists>d' w' c' p'. process_ticks n d w = Inr (d', w') \<and> capture d' = Some c' \<and> playback d' = Some p'
      \<and> paired (history c') \<and> paired (history p')"
proof (induction n arbitrary: d w c p)
  case 0
  then show ?case by simp
next
  case (Suc n)
  from capture_process_history [OF Suc.prems(1,2), of w]
  obtain d1 w1 c1 p1 where step: "capture_process d w = Inr (d1, w1)"
    "capture d1 = Some c1" "playback d1 = Some p1"
    "history c1 = history c @ tick_ops c" "history p1 = history p @ tick_ops p"
    by blast
  have "paired (history c1)" "paired (history p1)"
    using step Suc.prems by (simp_all add: paired_append paired_tick_ops)
  from Suc.IH [OF step(2,3) this, of w1] show ?case
    using step(1) by simp
qed

lemma process_ticks_2:
  "process_ticks 2 d w =
     (case capture_process d w of
        Inl f \<Rightarrow> Inl f
      | Inr (d', w') \<Rightarrow> capture_process d' w')"
  by (simp add: numeral_2_eq_2 split: sum.splits prod.splits)

text \<open>
  C1. With both stream pointers set, the callback returns, and whenever both dequeues
  return a buffer, the descriptor of the capture buffer is stored in the descriptor of the
  playback buffer and nothing else changes: no other descriptor, no \<^verbatim>\<open>pw_buffer\<close> and no
  byte of the sample memory. When either dequeue fails, no descriptor changes at all.
\<close>

theorem capture_process_forwards_descriptor:
  assumes "capture d = Some c" and "playback d = Some p"
  shows "case capture_process d w of
           Inl f \<Rightarrow> False
         | Inr (d', w') \<Rightarrow>
             pw_buffers w' = pw_buffers w \<and> samples w' = samples w \<and>
             (case (fst (pw_stream_dequeue_buffer c), fst (pw_stream_dequeue_buffer p)) of
                (Some i, Some out) \<Rightarrow>
                  spa_buffers w' = (spa_buffers w)
                    (buffer (pw_buffers w out) := spa_buffers w (buffer (pw_buffers w i)))
              | _ \<Rightarrow> spa_buffers w' = spa_buffers w)"
  using assms
  by (auto simp: capture_process_def pw_stream_dequeue_buffer_def pw_log_warn_def
      split: prod.splits list.splits option.splits)

theorem capture_process_forwards_descriptor_witness:
  "capture (example_data [1] [2]) = Some (example_stream ''loopback capture'' In_stream_events [1]) \<and>
   playback (example_data [1] [2]) = Some (example_stream ''loopback playback'' Out_stream_events [2]) \<and>
   \<not> isl (capture_process (example_data [1] [2]) example_world) \<and>
   spa_buffers example_world 20 = \<lparr>datas = [2000], frames = 256, stride = 4\<rparr> \<and>
   spa_buffers (snd (projr (capture_process (example_data [1] [2]) example_world))) 20
     = \<lparr>datas = [1000], frames = 256, stride = 4\<rparr> \<and>
   samples (snd (projr (capture_process (example_data [1] [2]) example_world)))
     = samples example_world"
  using capture_process_forwards_descriptor
          [of "example_data [1] [2]" "example_stream ''loopback capture'' In_stream_events [1]"
              "example_stream ''loopback playback'' Out_stream_events [2]" example_world]
  by (simp add: example_data_def example_stream_def example_world_def data_zero_def
      pw_stream_dequeue_buffer_def split: sum.splits prod.splits)

text \<open>
  C2. In one invocation each stream sees exactly the calls of \<open>tick_ops\<close>: a failed dequeue
  and nothing else, or a successful dequeue followed by one queue call of the same buffer.
  So over any number of invocations every history stays \<open>paired\<close>: a dequeued buffer is
  queued once, before the next dequeue on its stream, and no buffer is held from one
  invocation to the next.
\<close>

theorem capture_process_queues_back:
  assumes "capture d = Some c" and "playback d = Some p"
  shows "(case capture_process d w of
            Inl f \<Rightarrow> False
          | Inr (d', w') \<Rightarrow>
              map_option history (capture d') = Some (history c @ tick_ops c) \<and>
              map_option history (playback d') = Some (history p @ tick_ops p)) \<and>
         (paired (history c) \<and> paired (history p) \<longrightarrow>
            (case process_ticks n d w of
               Inl f \<Rightarrow> False
             | Inr (d', w') \<Rightarrow>
                 map_option (paired \<circ> history) (capture d') = Some True \<and>
                 map_option (paired \<circ> history) (playback d') = Some True))"
proof (intro conjI impI)
  from capture_process_history [OF assms, of w]
  show "case capture_process d w of
            Inl f \<Rightarrow> False
          | Inr (d', w') \<Rightarrow>
              map_option history (capture d') = Some (history c @ tick_ops c) \<and>
              map_option history (playback d') = Some (history p @ tick_ops p)"
    by auto
next
  assume "paired (history c) \<and> paired (history p)"
  with process_ticks_paired [OF assms, of n w]
  show "case process_ticks n d w of
               Inl f \<Rightarrow> False
             | Inr (d', w') \<Rightarrow>
                 map_option (paired \<circ> history) (capture d') = Some True \<and>
                 map_option (paired \<circ> history) (playback d') = Some True"
    by auto
qed

theorem capture_process_queues_back_witness:
  "capture (example_data [1, 2] [3]) = Some (example_stream ''loopback capture'' In_stream_events [1, 2]) \<and>
   playback (example_data [1, 2] [3]) = Some (example_stream ''loopback playback'' Out_stream_events [3]) \<and>
   paired (history (example_stream ''loopback capture'' In_stream_events [1, 2])) \<and>
   paired (history (example_stream ''loopback playback'' Out_stream_events [3])) \<and>
   map_option history (capture (fst (projr (capture_process (example_data [1, 2] [3]) example_world))))
     = Some [Dequeued (Some 1), Queued 1] \<and>
   map_option history (playback (fst (projr (capture_process (example_data [1, 2] [3]) example_world))))
     = Some [Dequeued (Some 3), Queued 3] \<and>
   map_option history (capture (fst (projr (process_ticks 2 (example_data [1, 2] [3]) example_world))))
     = Some [Dequeued (Some 1), Queued 1, Dequeued (Some 2), Queued 2] \<and>
   map_option history (playback (fst (projr (process_ticks 2 (example_data [1, 2] [3]) example_world))))
     = Some [Dequeued (Some 3), Queued 3, Dequeued None]"
  using capture_process_queues_back
          [of "example_data [1, 2] [3]" "example_stream ''loopback capture'' In_stream_events [1, 2]"
              "example_stream ''loopback playback'' Out_stream_events [3]" example_world 2]
  by (simp add: example_data_def example_stream_def example_world_def data_zero_def
      process_ticks_2 capture_process_def pw_log_warn_def
      pw_stream_dequeue_buffer_def pw_stream_queue_buffer_def)

text \<open>
  C4, as the specification states it, fails: with no capture buffer and the playback buffer 2, the
  playback buffer is queued back with the descriptor it was dequeued with (256 frames) and
  the samples it points to are the bytes they were.
\<close>

theorem playback_only_counterexample:
  "fst (pw_stream_dequeue_buffer (example_stream ''loopback capture'' In_stream_events [])) = None \<and>
   fst (pw_stream_dequeue_buffer (example_stream ''loopback playback'' Out_stream_events [2])) = Some 2 \<and>
   \<not> isl (capture_process (example_data [] [2]) example_world) \<and>
   map_option history (playback (fst (projr (capture_process (example_data [] [2]) example_world))))
     = Some [Dequeued (Some 2), Queued 2] \<and>
   buffer (pw_buffers example_world 2) = 20 \<and>
   spa_buffers example_world 20 = \<lparr>datas = [2000], frames = 256, stride = 4\<rparr> \<and>
   spa_buffers (snd (projr (capture_process (example_data [] [2]) example_world))) 20
     = \<lparr>datas = [2000], frames = 256, stride = 4\<rparr> \<and>
   samples example_world 2000 = 0x55 \<and>
   samples (snd (projr (capture_process (example_data [] [2]) example_world))) 2000 = 0x55"
  by (simp add: example_data_def example_stream_def example_world_def data_zero_def
      capture_process_def pw_log_warn_def
      pw_stream_dequeue_buffer_def pw_stream_queue_buffer_def)

text \<open>
  C4, amended. When only the playback dequeue succeeds, the playback buffer is queued back
  as it was dequeued: the callback changes no descriptor and no sample.
\<close>

theorem playback_only_requeued_unchanged:
  assumes "capture d = Some c" and "playback d = Some p"
    and "fst (pw_stream_dequeue_buffer c) = None"
    and "fst (pw_stream_dequeue_buffer p) = Some out"
  shows "case capture_process d w of
           Inl f \<Rightarrow> False
         | Inr (d', w') \<Rightarrow>
             pw_buffers w' = pw_buffers w \<and> spa_buffers w' = spa_buffers w \<and>
             samples w' = samples w \<and>
             map_option history (playback d') = Some (history p @ [Dequeued (Some out), Queued out])"
  using assms
  by (auto simp: capture_process_def pw_stream_dequeue_buffer_def pw_stream_queue_buffer_def
      pw_log_warn_def split: prod.splits list.splits option.splits)

theorem playback_only_requeued_unchanged_witness:
  "capture (example_data [] [2]) = Some (example_stream ''loopback capture'' In_stream_events []) \<and>
   playback (example_data [] [2]) = Some (example_stream ''loopback playback'' Out_stream_events [2]) \<and>
   fst (pw_stream_dequeue_buffer (example_stream ''loopback capture'' In_stream_events [])) = None \<and>
   fst (pw_stream_dequeue_buffer (example_stream ''loopback playback'' Out_stream_events [2])) = Some 2 \<and>
   \<not> isl (capture_process (example_data [] [2]) example_world) \<and>
   spa_buffers (snd (projr (capture_process (example_data [] [2]) example_world)))
     = spa_buffers example_world"
  using playback_only_requeued_unchanged
          [of "example_data [] [2]" "example_stream ''loopback capture'' In_stream_events []"
              "example_stream ''loopback playback'' Out_stream_events [2]" 2 example_world]
  by (simp add: example_data_def example_stream_def data_zero_def
      pw_stream_dequeue_buffer_def split: sum.splits prod.splits)

subsection \<open>The main program\<close>
lemma get_set:
  "pw_properties_get (pw_properties_set ps k v) k' = (if k' = k then v else pw_properties_get ps k')"
  by (cases v) (simp_all add: pw_properties_get_def pw_properties_set_def update_conv' delete_conv')

lemma quit_not_running: "\<not> is_running (pw_main_loop_quit d)"
  by (simp add: is_running_def pw_main_loop_quit_def split: option.splits)

lemma quit_fields:
  "core_listener (pw_main_loop_quit d) = core_listener d"
  "capture (pw_main_loop_quit d) = capture d"
  "playback (pw_main_loop_quit d) = playback d"
  "channels (pw_main_loop_quit d) = channels d"
  by (simp_all add: pw_main_loop_quit_def)

lemma dispatch_fields:
  "core_listener (fst (dispatch ev d w)) = core_listener d"
  "capture (fst (dispatch ev d w)) = capture d"
  "playback (fst (dispatch ev d w)) = playback d"
  "channels (fst (dispatch ev d w)) = channels d"
  by (simp_all add: dispatch_def on_core_error_def do_quit_def quit_fields Let_def
      split: loop_event.splits)

lemma dispatch_fatal:
  "core_listener d = Some Core_events \<Longrightarrow>
   \<not> is_running (fst (dispatch (Core_error_event PW_ID_CORE seq (- EPIPE) message) d w))"
  by (simp add: dispatch_def on_core_error_def quit_not_running Let_def)

lemma loop_iterate_returns:
  "core_listener d = Some Core_events \<Longrightarrow>
   Core_error_event PW_ID_CORE seq (- EPIPE) message \<in> set evs \<Longrightarrow>
   loop_iterate d w evs \<noteq> None"
proof (induction evs arbitrary: d w)
  case Nil
  then show ?case by simp
next
  case (Cons ev evs)
  obtain d' w' where step: "dispatch ev d w = (d', w')"
    by (cases "dispatch ev d w")
  have listener: "core_listener d' = Some Core_events"
    using dispatch_fields(1) [of ev d w] step Cons.prems(1) by simp
  show ?case
  proof (cases "is_running d'")
    case False
    with step show ?thesis by simp
  next
    case True
    have "ev \<noteq> Core_error_event PW_ID_CORE seq (- EPIPE) message"
      using dispatch_fatal [OF Cons.prems(1), of seq message w] step True by auto
    with Cons.prems(2) have "Core_error_event PW_ID_CORE seq (- EPIPE) message \<in> set evs"
      by simp
    from Cons.IH [OF listener this, of w'] step True show ?thesis by simp
  qed
qed

lemma loop_iterate_fields:
  "loop_iterate d w evs = Some (d', w') \<Longrightarrow>
   capture d' = capture d \<and> playback d' = playback d \<and> channels d' = channels d"
proof (induction evs arbitrary: d w)
  case Nil
  then show ?case by simp
next
  case (Cons ev evs)
  obtain d1 w1 where step: "dispatch ev d w = (d1, w1)"
    by (cases "dispatch ev d w")
  have keep: "capture d1 = capture d" "playback d1 = playback d" "channels d1 = channels d"
    using dispatch_fields(2,3,4) [of ev d w] step by simp_all
  show ?case
  proof (cases "is_running d1")
    case False
    with step Cons.prems keep show ?thesis by simp
  next
    case True
    with step Cons.prems have "loop_iterate d1 w1 evs = Some (d', w')" by simp
    from Cons.IH [OF this] keep show ?thesis by simp
  qed
qed

lemma connect_streams_fields:
  "core_listener (snd (connect_streams e d c p)) = core_listener d"
  "loop (snd (connect_streams e d c p)) = loop d"
  "channels (snd (connect_streams e d c p)) = channels d"
  by (simp_all add: connect_streams_def Let_def split: prod.splits)

lemma setup_streams_fields:
  "core_listener (snd (setup_streams e d)) = core_listener d"
  "loop (snd (setup_streams e d)) = loop d"
  "channels (snd (setup_streams e d)) = channels d"
  by (simp_all add: setup_streams_def Let_def connect_streams_fields split: sum.splits)

lemma run_main_exit:
  assumes "main_loop_ok e" "context_ok e" "core_ok e"
    and "Core_error_event PW_ID_CORE seq (- EPIPE) message \<in> set (loop_events e)"
  shows "fst (run_main e d r w) = Some (Return 0)"
proof -
  define d5 where "d5 = (set_latency (set_group (d\<lparr>loop := Some \<lparr>running = False\<rparr>, pw_context := Some ()\<rparr>)))
     \<lparr>core := Some \<lparr>core_properties = pw_properties_set [] PW_KEY_REMOTE_NAME r\<rparr>, core_listener := Some Core_events\<rparr>"
  define d6 where "d6 = snd (setup_streams e d5)"
  have "core_listener d6 = Some Core_events"
    by (simp add: d6_def d5_def setup_streams_fields)
  then have "core_listener (d6\<lparr>loop := map_option (\<lambda>l. l\<lparr>running := True\<rparr>) (loop d6)\<rparr>) = Some Core_events"
    by simp
  from loop_iterate_returns [OF this assms(4), of w]
  obtain d7 w' where "pw_main_loop_run d6 w (loop_events e) = Some (d7, w')"
    by (auto simp: pw_main_loop_run_def)
  then show ?thesis
    using assms(1-3) by (simp add: run_main_def Let_def d6_def d5_def)
qed

lemma setup_streams_result:
  assumes "capture (snd (setup_streams e d)) = Some c"
    and "playback (snd (setup_streams e d)) = Some p"
  shows "properties c = (case capture_props d of None \<Rightarrow> [] | Some x \<Rightarrow> x) \<and>
         properties p = (case playback_props d of None \<Rightarrow> [] | Some x \<Rightarrow> x) \<and>
         (\<forall>a. connection c = Some a \<longrightarrow>
            a = \<lparr>conn_direction = PW_DIRECTION_INPUT, conn_target = PW_ID_ANY,
                 conn_flags = stream_flags, conn_params = [the_format (channels d)]\<rparr>) \<and>
         (\<forall>a. connection p = Some a \<longrightarrow>
            a = \<lparr>conn_direction = PW_DIRECTION_OUTPUT, conn_target = PW_ID_ANY,
                 conn_flags = stream_flags, conn_params = [the_format (channels d)]\<rparr>)"
  using assms
  by (auto simp: setup_streams_def connect_streams_def pw_stream_new_def pw_stream_connect_def
      pw_stream_add_listener_def spa_format_audio_raw_build_def the_format_def Let_def
      split: sum.splits option.splits if_splits prod.splits)

lemma parse_options_fields:
  "parse_options opts d r = Inr (d', r') \<Longrightarrow>
   capture d' = capture d \<and> playback d' = playback d \<and>
   (capture_props d \<noteq> None \<longrightarrow> capture_props d' \<noteq> None) \<and>
   (playback_props d \<noteq> None \<longrightarrow> playback_props d' \<noteq> None) \<and>
   (opt_group_name d \<noteq> None \<longrightarrow> opt_group_name d' \<noteq> None)"
  by (induction opts d r rule: parse_options.induct) (auto split: option.splits)


lemma set_group_fields:
  "capture (set_group d) = capture d" "playback (set_group d) = playback d"
  "channels (set_group d) = channels d" "latency (set_group d) = latency d"
  by (simp_all add: set_group_def split: option.splits)

lemma set_latency_fields:
  "capture (set_latency d) = capture d" "playback (set_latency d) = playback d"
  "channels (set_latency d) = channels d"
  by (simp_all add: set_latency_def)

lemma run_main_streams:
  assumes "capture d0 = None"
    and "capture (fst (snd (run_main e d0 r w))) = Some c"
  shows "capture (snd (setup_streams e (pre_setup d0 r))) = Some c \<and>
         playback (fst (snd (run_main e d0 r w))) = playback (snd (setup_streams e (pre_setup d0 r))) \<and>
         channels (fst (snd (run_main e d0 r w))) = channels d0"
proof -
  have ok: "main_loop_ok e" "context_ok e" "core_ok e"
    using assms
    by (auto simp: run_main_def Let_def set_group_fields set_latency_fields split: if_splits)
  define d6 where "d6 = snd (setup_streams e (pre_setup d0 r))"
  have ch: "channels d6 = channels d0"
    by (simp add: d6_def setup_streams_fields pre_setup_def set_group_fields set_latency_fields)
  show ?thesis
  proof (cases "pw_main_loop_run d6 w (loop_events e)")
    case None
    then have "fst (snd (run_main e d0 r w)) = d6"
      using ok by (simp add: run_main_def Let_def d6_def pre_setup_def)
    with assms(2) ch show ?thesis by (simp add: d6_def)
  next
    case (Some dw)
    obtain d7 w' where dw: "dw = (d7, w')" by (cases dw)
    have fin: "fst (snd (run_main e d0 r w)) = d7"
      using ok Some dw by (simp add: run_main_def Let_def d6_def pre_setup_def)
    have "capture d7 = capture d6 \<and> playback d7 = playback d6 \<and> channels d7 = channels d6"
      using loop_iterate_fields [of _ w "loop_events e" d7 w'] Some dw
      by (simp add: pw_main_loop_run_def)
    with fin assms(2) ch show ?thesis by (simp add: d6_def)
  qed
qed

lemma init_data_fields:
  "capture (init_data e) = None" "playback (init_data e) = None"
  "opt_group_name (init_data e) \<noteq> None"
  by (simp_all add: init_data_def data_zero_def Let_def)

lemma main_streams:
  assumes "capture (fst (snd (main e opts w))) = Some c"
  shows "\<exists>d0 r. parse_options opts (init_data e) None = Inr (d0, r) \<and>
           capture_props d0 \<noteq> None \<and> playback_props d0 \<noteq> None \<and> opt_group_name d0 \<noteq> None \<and>
           capture d0 = None \<and>
           capture (snd (setup_streams e (pre_setup d0 r))) = Some c \<and>
           playback (fst (snd (main e opts w))) = playback (snd (setup_streams e (pre_setup d0 r))) \<and>
           channels (fst (snd (main e opts w))) = channels d0"
proof -
  have props: "capture_props (init_data e) \<noteq> None" "playback_props (init_data e) \<noteq> None"
    using assms by (auto simp: main_def Let_def init_data_fields split: if_splits)
  obtain d0 r where parsed: "parse_options opts (init_data e) None = Inr (d0, r)"
    using assms props
    by (cases "parse_options opts (init_data e) None")
       (auto simp: main_def Let_def init_data_fields)
  have run: "main e opts w = run_main e d0 r w"
    using props parsed by (auto simp: main_def Let_def)
  have d0: "capture d0 = None" "capture_props d0 \<noteq> None" "playback_props d0 \<noteq> None"
    "opt_group_name d0 \<noteq> None"
    using parse_options_fields [OF parsed] props init_data_fields [of e] by simp_all
  from run_main_streams [OF d0(1), of e r w c] assms run parsed d0
  show ?thesis by simp
qed

lemma pre_setup_props:
  assumes "opt_group_name d0 = Some g" "capture_props d0 = Some cp" "playback_props d0 = Some pp"
  shows "\<exists>cp' pp'. capture_props (pre_setup d0 r) = Some cp' \<and> playback_props (pre_setup d0 r) = Some pp' \<and>
           (\<forall>k. pw_properties_get cp' k = engine_value d0 cp k) \<and>
           (\<forall>k. pw_properties_get pp' k = engine_value d0 pp k)"
  using assms
  by (simp add: pre_setup_def set_group_def set_latency_def engine_value_def get_set)

lemma pre_setup_channels: "channels (pre_setup d0 r) = channels d0"
  by (simp add: pre_setup_def set_group_fields set_latency_fields)

lemma main_stream_props:
  assumes "capture (fst (snd (main e opts w))) = Some c"
    and "playback (fst (snd (main e opts w))) = Some p"
  shows "\<exists>d0 r cp pp. parse_options opts (init_data e) None = Inr (d0, r) \<and>
           capture_props d0 = Some cp \<and> playback_props d0 = Some pp \<and> opt_group_name d0 \<noteq> None \<and>
           channels (fst (snd (main e opts w))) = channels d0 \<and>
           (\<forall>k. pw_properties_get (properties c) k = engine_value d0 cp k) \<and>
           (\<forall>k. pw_properties_get (properties p) k = engine_value d0 pp k) \<and>
           (\<forall>a. connection c = Some a \<longrightarrow>
              a = \<lparr>conn_direction = PW_DIRECTION_INPUT, conn_target = PW_ID_ANY,
                   conn_flags = stream_flags, conn_params = [the_format (channels d0)]\<rparr>) \<and>
           (\<forall>a. connection p = Some a \<longrightarrow>
              a = \<lparr>conn_direction = PW_DIRECTION_OUTPUT, conn_target = PW_ID_ANY,
                   conn_flags = stream_flags, conn_params = [the_format (channels d0)]\<rparr>)"
proof -
  from main_streams [OF assms(1)] obtain d0 r where
    m: "parse_options opts (init_data e) None = Inr (d0, r)"
      "capture_props d0 \<noteq> None" "playback_props d0 \<noteq> None" "opt_group_name d0 \<noteq> None"
      "capture (snd (setup_streams e (pre_setup d0 r))) = Some c"
      "playback (fst (snd (main e opts w))) = playback (snd (setup_streams e (pre_setup d0 r)))"
      "channels (fst (snd (main e opts w))) = channels d0"
    by blast
  from m(2,3,4) obtain cp pp g where
    some: "capture_props d0 = Some cp" "playback_props d0 = Some pp" "opt_group_name d0 = Some g"
    by auto
  from pre_setup_props [OF some(3,1,2), of r] obtain cp' pp' where
    pre: "capture_props (pre_setup d0 r) = Some cp'" "playback_props (pre_setup d0 r) = Some pp'"
      "\<forall>k. pw_properties_get cp' k = engine_value d0 cp k"
      "\<forall>k. pw_properties_get pp' k = engine_value d0 pp k"
    by blast
  have pb: "playback (snd (setup_streams e (pre_setup d0 r))) = Some p"
    using m(6) assms(2) by simp
  from setup_streams_result [OF m(5) pb] pre pre_setup_channels [of d0 r]
  have "properties c = cp'" "properties p = pp'"
    "\<forall>a. connection c = Some a \<longrightarrow>
              a = \<lparr>conn_direction = PW_DIRECTION_INPUT, conn_target = PW_ID_ANY,
                   conn_flags = stream_flags, conn_params = [the_format (channels d0)]\<rparr>"
    "\<forall>a. connection p = Some a \<longrightarrow>
              a = \<lparr>conn_direction = PW_DIRECTION_OUTPUT, conn_target = PW_ID_ANY,
                   conn_flags = stream_flags, conn_params = [the_format (channels d0)]\<rparr>"
    by simp_all
  with m(1,4,7) some(1,2) pre(3,4) show ?thesis by simp
qed

lemmas loopback_defs =
  main_def run_main_def init_data_def data_zero_def set_group_def set_latency_def
  setup_streams_def connect_streams_def pw_stream_new_def pw_stream_add_listener_def
  pw_stream_connect_def pw_main_loop_run_def dispatch_def do_quit_def on_core_error_def
  pw_main_loop_quit_def is_running_def pw_log_error_def spa_format_audio_raw_build_def
  update_string_def pw_properties_update_string_def merge_items_def
  pw_properties_set_def pw_properties_get_def Let_def

lemma utoa_examples: "utoa 4242 = ''4242''" "utoa 48000 = ''48000''" "utoa 960 = ''960''"
  by (simp_all add: utoa.simps)

lemma parse_bag_example: "parse_bag ''node.group=other'' = Some [(''node.group'', ''other'')]"
  by (simp add: parse_bag.simps is_space_def value_token_def)


lemma atoi_2: "atoi ''2'' = 2"
  by (simp add: atoi_def strtol_def isspace_def isdigit_def)



text \<open>
  C5. The core error listener logs every error and stops the loop exactly for the error
  of the core object with the code \<^verbatim>\<open>-EPIPE\<close>: any other error leaves \<^verbatim>\<open>data\<close>, and so the
  loop, as it was. When that error is among the events of a run that reaches the main
  loop, the loop returns and \<^verbatim>\<open>main\<close> returns 0.
\<close>

theorem core_error_policy:
  "(is_running (fst (on_core_error d w id' seq res message)) \<longleftrightarrow>
      is_running d \<and> \<not> (id' = PW_ID_CORE \<and> res = - EPIPE)) \<and>
   (\<not> (id' = PW_ID_CORE \<and> res = - EPIPE) \<longrightarrow> fst (on_core_error d w id' seq res message) = d) \<and>
   log (snd (on_core_error d w id' seq res message))
     = log w @ [(Log_error, ''error id:%u seq:%d res:%d (%s): %s'')] \<and>
   (capture_props_ok e \<and> playback_props_ok e \<and> main_loop_ok e \<and> context_ok e \<and> core_ok e \<and>
    \<not> isl (parse_options opts (init_data e) None) \<and>
    Core_error_event PW_ID_CORE seq' (- EPIPE) message' \<in> set (loop_events e)
      \<longrightarrow> fst (main e opts w0) = Some (Return 0))"
proof (intro conjI impI)
  show "is_running (fst (on_core_error d w id' seq res message)) \<longleftrightarrow>
      is_running d \<and> \<not> (id' = PW_ID_CORE \<and> res = - EPIPE)"
    by (simp add: on_core_error_def Let_def quit_not_running)
  show "fst (on_core_error d w id' seq res message) = d"
    if "\<not> (id' = PW_ID_CORE \<and> res = - EPIPE)"
    using that by (auto simp: on_core_error_def Let_def)
  show "log (snd (on_core_error d w id' seq res message))
     = log w @ [(Log_error, ''error id:%u seq:%d res:%d (%s): %s'')]"
    by (simp add: on_core_error_def Let_def pw_log_error_def)
  show "fst (main e opts w0) = Some (Return 0)"
    if h: "capture_props_ok e \<and> playback_props_ok e \<and> main_loop_ok e \<and> context_ok e \<and> core_ok e \<and>
    \<not> isl (parse_options opts (init_data e) None) \<and>
    Core_error_event PW_ID_CORE seq' (- EPIPE) message' \<in> set (loop_events e)"
  proof -
    obtain d0 r where parsed: "parse_options opts (init_data e) None = Inr (d0, r)"
      using h by (cases "parse_options opts (init_data e) None") auto
    have "main e opts w0 = run_main e d0 r w0"
      using h parsed by (simp add: main_def init_data_def Let_def)
    with run_main_exit [of e seq' message' d0 r w0] h show ?thesis by simp
  qed
qed

theorem core_error_policy_witness:
  "capture_props_ok pipe_env \<and> playback_props_ok pipe_env \<and> main_loop_ok pipe_env \<and>
   context_ok pipe_env \<and> core_ok pipe_env \<and>
   \<not> isl (parse_options [Opt_g ''mygroup''] (init_data pipe_env) None) \<and>
   Core_error_event PW_ID_CORE 0 (- EPIPE) ''connection closed'' \<in> set (loop_events pipe_env) \<and>
   fst (main pipe_env [Opt_g ''mygroup''] example_world) = Some (Return 0) \<and>
   is_running running_data \<and>
   \<not> is_running (fst (on_core_error running_data example_world PW_ID_CORE 0 (- EPIPE) ''connection closed'')) \<and>
   fst (on_core_error running_data example_world 7 0 (- EPIPE) ''stream gone'') = running_data \<and>
   fst (on_core_error running_data example_world PW_ID_CORE 0 (- EINVAL) ''bad'') = running_data"
  using core_error_policy [of running_data example_world PW_ID_CORE 0 "- EPIPE" "''connection closed''"
          pipe_env "[Opt_g ''mygroup'']" 0 "''connection closed''" example_world]
        core_error_policy [of running_data example_world 7 0 "- EPIPE" "''stream gone''"
          pipe_env "[Opt_g ''mygroup'']" 0 "''connection closed''" example_world]
        core_error_policy [of running_data example_world PW_ID_CORE 0 "- EINVAL" "''bad''"
          pipe_env "[Opt_g ''mygroup'']" 0 "''connection closed''" example_world]
  by (simp add: pipe_env_def example_env_def running_data_def data_zero_def is_running_def
      PW_ID_CORE_def EPIPE_def EINVAL_def)

text \<open>
  C6. When the daemon refuses the connect of the capture stream, \<^verbatim>\<open>setup_streams\<close> returns
  the negative answer, but \<^verbatim>\<open>main\<close> drops it: the loop runs with both streams unconnected
  and, once the user interrupts it, \<^verbatim>\<open>main\<close> returns 0.
\<close>

theorem stream_refused_exit_code:
  "capture_connect_res refused_env < 0 \<and>
   fst (setup_streams refused_env (init_data refused_env)) = - 2 \<and>
   fst (main refused_env [] example_world) = Some (Return 0) \<and>
   map_option connection (capture (fst (snd (main refused_env [] example_world)))) = Some None \<and>
   map_option connection (playback (fst (snd (main refused_env [] example_world)))) = Some None"
  by (simp add: loopback_defs refused_env_def example_env_def utoa_examples
      latency_string_def DEFAULT_RATE_def DEFAULT_CHANNELS_def DEFAULT_CHANNEL_MAP_def)

lemma merge_items_get:
  "pw_properties_get (merge_items ps kvs) k =
     (case map_of (rev kvs) k of Some v \<Rightarrow> Some v | None \<Rightarrow> pw_properties_get ps k)"
proof (induction kvs arbitrary: ps)
  case Nil
  then show ?case by (simp add: merge_items_def)
next
  case (Cons kv kvs)
  obtain k' v' where kv: "kv = (k', v')" by (cases kv)
  have "merge_items ps (kv # kvs) = merge_items (pw_properties_set ps k' (Some v')) kvs"
    by (simp add: merge_items_def kv)
  then show ?case
    using Cons.IH [of "pw_properties_set ps k' (Some v')"]
    by (auto simp: kv get_set map_add_def split: option.splits)
qed

lemma parse_options_append:
  "parse_options (xs @ ys) d r =
     (case parse_options xs d r of Inl c \<Rightarrow> Inl c | Inr (d', r') \<Rightarrow> parse_options ys d' r')"
  by (induction xs d r rule: parse_options.induct) (simp_all split: option.splits)


lemma update_string_get:
  "parse_bag s = Some kvs \<Longrightarrow> map_of (rev kvs) k = Some v \<Longrightarrow>
   pw_properties_get (update_string s ps) k = Some v"
  by (simp add: update_string_def pw_properties_update_string_def merge_items_get)

lemma overlay_last:
  assumes "parse_options (pre @ [Opt_i s]) d r = Inr (d', r')"
    and "capture_props d \<noteq> None"
    and "parse_bag s = Some kvs" and "map_of (rev kvs) k = Some v"
  shows "\<exists>cp. capture_props d' = Some cp \<and> pw_properties_get cp k = Some v"
proof -
  obtain d1 r1 where pre: "parse_options pre d r = Inr (d1, r1)"
    using assms(1) by (cases "parse_options pre d r") (auto simp: parse_options_append)
  then obtain cp1 where cp1: "capture_props d1 = Some cp1"
    using parse_options_fields [OF pre] assms(2) by auto
  have "d' = d1\<lparr>capture_props := Some (update_string s cp1)\<rparr>"
    using assms(1) pre cp1 by (simp add: parse_options_append)
  then show ?thesis
    using update_string_get [OF assms(3,4)] by simp
qed

lemma overlay_last_playback:
  assumes "parse_options (pre @ [Opt_o s]) d r = Inr (d', r')"
    and "playback_props d \<noteq> None"
    and "parse_bag s = Some kvs" and "map_of (rev kvs) k = Some v"
  shows "\<exists>pp. playback_props d' = Some pp \<and> pw_properties_get pp k = Some v"
proof -
  obtain d1 r1 where pre: "parse_options pre d r = Inr (d1, r1)"
    using assms(1) by (cases "parse_options pre d r") (auto simp: parse_options_append)
  then obtain pp1 where pp1: "playback_props d1 = Some pp1"
    using parse_options_fields [OF pre] assms(2) by auto
  have "d' = d1\<lparr>playback_props := Some (update_string s pp1)\<rparr>"
    using assms(1) pre pp1 by (simp add: parse_options_append)
  then show ?thesis
    using update_string_get [OF assms(3,4)] by simp
qed



text \<open>
  C9. Whenever \<^verbatim>\<open>main\<close> has created both streams, they carry the same value under
  \<^verbatim>\<open>node.group\<close> (and there is one), and each stream that is connected was connected with
  the same flags and the one format of \<open>the_format\<close> for the configured channel count.
\<close>

theorem streams_share_format_flags_group:
  assumes "capture (fst (snd (main e opts w))) = Some c"
    and "playback (fst (snd (main e opts w))) = Some p"
  shows "pw_properties_get (properties c) PW_KEY_NODE_GROUP
           = pw_properties_get (properties p) PW_KEY_NODE_GROUP \<and>
         pw_properties_get (properties c) PW_KEY_NODE_GROUP \<noteq> None \<and>
         (\<forall>a. connection c = Some a \<longrightarrow>
            conn_flags a = stream_flags \<and>
            conn_params a = [the_format (channels (fst (snd (main e opts w))))]) \<and>
         (\<forall>b. connection p = Some b \<longrightarrow>
            conn_flags b = stream_flags \<and>
            conn_params b = [the_format (channels (fst (snd (main e opts w))))])"
proof -
  from main_stream_props [OF assms] obtain d0 r cp pp where
    m: "opt_group_name d0 \<noteq> None" "channels (fst (snd (main e opts w))) = channels d0"
      "\<forall>k. pw_properties_get (properties c) k = engine_value d0 cp k"
      "\<forall>k. pw_properties_get (properties p) k = engine_value d0 pp k"
      "\<forall>a. connection c = Some a \<longrightarrow>
              a = \<lparr>conn_direction = PW_DIRECTION_INPUT, conn_target = PW_ID_ANY,
                   conn_flags = stream_flags, conn_params = [the_format (channels d0)]\<rparr>"
      "\<forall>a. connection p = Some a \<longrightarrow>
              a = \<lparr>conn_direction = PW_DIRECTION_OUTPUT, conn_target = PW_ID_ANY,
                   conn_flags = stream_flags, conn_params = [the_format (channels d0)]\<rparr>"
    by blast
  have "pw_properties_get (properties c) PW_KEY_NODE_GROUP = opt_group_name d0"
    "pw_properties_get (properties p) PW_KEY_NODE_GROUP = opt_group_name d0"
    using m(3,4) by (simp_all add: engine_value_def)
  moreover have "conn_flags a = stream_flags \<and> conn_params a = [the_format (channels d0)]"
    if "connection c = Some a" for a
    using m(5) that by auto
  moreover have "conn_flags b = stream_flags \<and> conn_params b = [the_format (channels d0)]"
    if "connection p = Some b" for b
    using m(6) that by auto
  ultimately show ?thesis
    using m(1,2) by simp
qed

lemma atoi_4: "atoi ''4'' = 4"
  by (simp add: atoi_def strtol_def isspace_def isdigit_def)

lemma parse_bag_third: "parse_bag ''node.group=third'' = Some [(''node.group'', ''third'')]"
  by (simp add: parse_bag.simps is_space_def value_token_def)

theorem streams_share_format_flags_group_witness:
  "capture (fst (snd (main example_env
       [Opt_c ''4'', Opt_g ''mygroup'', Opt_i ''node.group=other'', Opt_o ''node.group=third'']
       example_world)))
     = Some \<lparr>stream_name = ''loopback capture'', properties = [(PW_KEY_NODE_GROUP, ''mygroup'')],
             stream_listener = Some In_stream_events,
             connection = Some \<lparr>conn_direction = PW_DIRECTION_INPUT, conn_target = PW_ID_ANY,
               conn_flags = stream_flags, conn_params = [the_format 4]\<rparr>,
             ring = [], history = []\<rparr> \<and>
   playback (fst (snd (main example_env
       [Opt_c ''4'', Opt_g ''mygroup'', Opt_i ''node.group=other'', Opt_o ''node.group=third'']
       example_world)))
     = Some \<lparr>stream_name = ''loopback playback'', properties = [(PW_KEY_NODE_GROUP, ''mygroup'')],
             stream_listener = Some Out_stream_events,
             connection = Some \<lparr>conn_direction = PW_DIRECTION_OUTPUT, conn_target = PW_ID_ANY,
               conn_flags = stream_flags, conn_params = [the_format 4]\<rparr>,
             ring = [], history = []\<rparr> \<and>
   channels (fst (snd (main example_env
       [Opt_c ''4'', Opt_g ''mygroup'', Opt_i ''node.group=other'', Opt_o ''node.group=third'']
       example_world))) = 4"
  using streams_share_format_flags_group
    [of example_env
       "[Opt_c ''4'', Opt_g ''mygroup'', Opt_i ''node.group=other'', Opt_o ''node.group=third'']"
       example_world
       "\<lparr>stream_name = ''loopback capture'', properties = [(PW_KEY_NODE_GROUP, ''mygroup'')],
             stream_listener = Some In_stream_events,
             connection = Some \<lparr>conn_direction = PW_DIRECTION_INPUT, conn_target = PW_ID_ANY,
               conn_flags = stream_flags, conn_params = [the_format 4]\<rparr>,
             ring = [], history = []\<rparr>"
       "\<lparr>stream_name = ''loopback playback'', properties = [(PW_KEY_NODE_GROUP, ''mygroup'')],
             stream_listener = Some Out_stream_events,
             connection = Some \<lparr>conn_direction = PW_DIRECTION_OUTPUT, conn_target = PW_ID_ANY,
               conn_flags = stream_flags, conn_params = [the_format 4]\<rparr>,
             ring = [], history = []\<rparr>"]
  by (simp add: loopback_defs example_env_def utoa_examples parse_bag_example parse_bag_third atoi_4
      DEFAULT_CHANNELS_def DEFAULT_CHANNEL_MAP_def the_format_def)

text \<open>
  C3, as the specification states it, fails: with \<^verbatim>\<open>-g mygroup --capture-props 'node.group=other'\<close>
  the capture stream is constructed with \<^verbatim>\<open>node.group = mygroup\<close>, as the playback stream is.
\<close>

theorem overlay_precedence_counterexample:
  "parse_bag ''node.group=other'' = Some [(''node.group'', ''other'')] \<and>
   capture (fst (snd (main example_env [Opt_g ''mygroup'', Opt_i ''node.group=other''] example_world)))
     \<noteq> None \<and>
   pw_properties_get
     (properties (the (capture (fst (snd
        (main example_env [Opt_g ''mygroup'', Opt_i ''node.group=other''] example_world))))))
     PW_KEY_NODE_GROUP = Some ''mygroup'' \<and>
   pw_properties_get
     (properties (the (capture (fst (snd
        (main example_env [Opt_g ''mygroup'', Opt_i ''node.group=other''] example_world))))))
     PW_KEY_NODE_GROUP \<noteq> Some ''other'' \<and>
   pw_properties_get
     (properties (the (playback (fst (snd
        (main example_env [Opt_g ''mygroup'', Opt_i ''node.group=other''] example_world))))))
     PW_KEY_NODE_GROUP = Some ''mygroup''"
  by (simp add: loopback_defs example_env_def utoa_examples parse_bag_example
      DEFAULT_CHANNELS_def DEFAULT_CHANNEL_MAP_def)

text \<open>
  C3, amended. The overlays are merged while the options are read, before the engine
  writes its own keys. So both streams are constructed with the group name of the option
  loop under \<^verbatim>\<open>node.group\<close> and, when the latency is not zero, with the engine's
  \<^verbatim>\<open>node.latency\<close>; every other key has the value the option loop left in the dictionary,
  which for each key of an overlay given as the last option is the overlay's value.
\<close>

theorem overlays_merged_before_engine_keys:
  assumes "capture (fst (snd (main e opts w))) = Some c"
    and "playback (fst (snd (main e opts w))) = Some p"
  shows "\<not> isl (parse_options opts (init_data e) None) \<and>
    (let d0 = fst (projr (parse_options opts (init_data e) None)) in
       (opt_group_name d0 \<noteq> None) \<and>
       (pw_properties_get (properties c) PW_KEY_NODE_GROUP = opt_group_name d0) \<and>
       (pw_properties_get (properties p) PW_KEY_NODE_GROUP = opt_group_name d0) \<and>
       (latency d0 \<noteq> 0 \<longrightarrow>
          pw_properties_get (properties c) PW_KEY_NODE_LATENCY = Some (latency_string (latency d0)) \<and>
          pw_properties_get (properties p) PW_KEY_NODE_LATENCY = Some (latency_string (latency d0))) \<and>
       (\<forall>k. k \<noteq> PW_KEY_NODE_GROUP \<and> (k \<noteq> PW_KEY_NODE_LATENCY \<or> latency d0 = 0) \<longrightarrow>
          Some (pw_properties_get (properties c) k)
            = map_option (\<lambda>ps. pw_properties_get ps k) (capture_props d0) \<and>
          Some (pw_properties_get (properties p) k)
            = map_option (\<lambda>ps. pw_properties_get ps k) (playback_props d0)) \<and>
       (\<forall>pre s kvs k v.
          opts = pre @ [Opt_i s] \<and> parse_bag s = Some kvs \<and> map_of (rev kvs) k = Some v \<and>
          k \<noteq> PW_KEY_NODE_GROUP \<and> (k \<noteq> PW_KEY_NODE_LATENCY \<or> latency d0 = 0) \<longrightarrow>
          pw_properties_get (properties c) k = Some v) \<and>
       (\<forall>pre s kvs k v.
          opts = pre @ [Opt_o s] \<and> parse_bag s = Some kvs \<and> map_of (rev kvs) k = Some v \<and>
          k \<noteq> PW_KEY_NODE_GROUP \<and> (k \<noteq> PW_KEY_NODE_LATENCY \<or> latency d0 = 0) \<longrightarrow>
          pw_properties_get (properties p) k = Some v))"
proof -
  from main_stream_props [OF assms] obtain d0 r cp pp where
    m: "parse_options opts (init_data e) None = Inr (d0, r)"
      "capture_props d0 = Some cp" "playback_props d0 = Some pp" "opt_group_name d0 \<noteq> None"
      "\<forall>k. pw_properties_get (properties c) k = engine_value d0 cp k"
      "\<forall>k. pw_properties_get (properties p) k = engine_value d0 pp k"
    by blast
  have init: "capture_props (init_data e) \<noteq> None" "playback_props (init_data e) \<noteq> None"
    using assms(1) by (auto simp: main_def Let_def init_data_fields split: if_splits)
  have other: "pw_properties_get (properties c) k = pw_properties_get cp k"
    "pw_properties_get (properties p) k = pw_properties_get pp k"
    if "k \<noteq> PW_KEY_NODE_GROUP \<and> (k \<noteq> PW_KEY_NODE_LATENCY \<or> latency d0 = 0)" for k
    using m(5,6) that by (auto simp: engine_value_def)
  have c1: "opt_group_name d0 \<noteq> None"
    by (rule m(4))
  have c2: "pw_properties_get (properties c) PW_KEY_NODE_GROUP = opt_group_name d0"
    using m(5) by (simp add: engine_value_def)
  have c3: "pw_properties_get (properties p) PW_KEY_NODE_GROUP = opt_group_name d0"
    using m(6) by (simp add: engine_value_def)
  have c4: "latency d0 \<noteq> 0 \<longrightarrow>
          pw_properties_get (properties c) PW_KEY_NODE_LATENCY = Some (latency_string (latency d0)) \<and>
          pw_properties_get (properties p) PW_KEY_NODE_LATENCY = Some (latency_string (latency d0))"
    using m(5,6) by (simp add: engine_value_def)
  have c5: "\<forall>k. k \<noteq> PW_KEY_NODE_GROUP \<and> (k \<noteq> PW_KEY_NODE_LATENCY \<or> latency d0 = 0) \<longrightarrow>
          Some (pw_properties_get (properties c) k)
            = map_option (\<lambda>ps. pw_properties_get ps k) (capture_props d0) \<and>
          Some (pw_properties_get (properties p) k)
            = map_option (\<lambda>ps. pw_properties_get ps k) (playback_props d0)"
    using other m(2,3) by simp
  have c6: "\<forall>pre s kvs k v.
          opts = pre @ [Opt_i s] \<and> parse_bag s = Some kvs \<and> map_of (rev kvs) k = Some v \<and>
          k \<noteq> PW_KEY_NODE_GROUP \<and> (k \<noteq> PW_KEY_NODE_LATENCY \<or> latency d0 = 0) \<longrightarrow>
          pw_properties_get (properties c) k = Some v"
  proof (intro allI impI)
    fix pre s kvs k v
    assume h: "opts = pre @ [Opt_i s] \<and> parse_bag s = Some kvs \<and> map_of (rev kvs) k = Some v \<and>
          k \<noteq> PW_KEY_NODE_GROUP \<and> (k \<noteq> PW_KEY_NODE_LATENCY \<or> latency d0 = 0)"
    then have "parse_options (pre @ [Opt_i s]) (init_data e) None = Inr (d0, r)"
      using m(1) by simp
    from overlay_last [OF this init(1), of kvs k v] h m(2)
    have "pw_properties_get cp k = Some v" by auto
    with other(1) [of k] h show "pw_properties_get (properties c) k = Some v" by simp
  qed
  have c7: "\<forall>pre s kvs k v.
          opts = pre @ [Opt_o s] \<and> parse_bag s = Some kvs \<and> map_of (rev kvs) k = Some v \<and>
          k \<noteq> PW_KEY_NODE_GROUP \<and> (k \<noteq> PW_KEY_NODE_LATENCY \<or> latency d0 = 0) \<longrightarrow>
          pw_properties_get (properties p) k = Some v"
  proof (intro allI impI)
    fix pre s kvs k v
    assume h: "opts = pre @ [Opt_o s] \<and> parse_bag s = Some kvs \<and> map_of (rev kvs) k = Some v \<and>
          k \<noteq> PW_KEY_NODE_GROUP \<and> (k \<noteq> PW_KEY_NODE_LATENCY \<or> latency d0 = 0)"
    then have "parse_options (pre @ [Opt_o s]) (init_data e) None = Inr (d0, r)"
      using m(1) by simp
    from overlay_last_playback [OF this init(2), of kvs k v] h m(3)
    have "pw_properties_get pp k = Some v" by auto
    with other(2) [of k] h show "pw_properties_get (properties p) k = Some v" by simp
  qed
  have parsed: "\<not> isl (parse_options opts (init_data e) None)"
    and d0: "fst (projr (parse_options opts (init_data e) None)) = d0"
    using m(1) by simp_all
  show ?thesis
    unfolding Let_def d0
    by (intro conjI) (fact parsed c1 c2 c3 c4 c5 c6 c7)+
qed

lemma parse_bag_overlay:
  "parse_bag ''node.group=other media.role=Music''
     = Some [(''node.group'', ''other''), (''media.role'', ''Music'')]"
  by (simp add: parse_bag.simps is_space_def value_token_def)

theorem overlays_merged_before_engine_keys_witness:
  "capture (fst (snd (main example_env
       [Opt_g ''mygroup'', Opt_C ''source-A'', Opt_i ''node.group=other media.role=Music'']
       example_world)))
     = Some \<lparr>stream_name = ''loopback capture'',
             properties = [(PW_KEY_NODE_TARGET, ''source-A''), (PW_KEY_NODE_GROUP, ''mygroup''),
                           (''media.role'', ''Music'')],
             stream_listener = Some In_stream_events,
             connection = Some \<lparr>conn_direction = PW_DIRECTION_INPUT, conn_target = PW_ID_ANY,
               conn_flags = stream_flags, conn_params = [the_format 2]\<rparr>,
             ring = [], history = []\<rparr> \<and>
   playback (fst (snd (main example_env
       [Opt_g ''mygroup'', Opt_C ''source-A'', Opt_i ''node.group=other media.role=Music'']
       example_world)))
     = Some \<lparr>stream_name = ''loopback playback'', properties = [(PW_KEY_NODE_GROUP, ''mygroup'')],
             stream_listener = Some Out_stream_events,
             connection = Some \<lparr>conn_direction = PW_DIRECTION_OUTPUT, conn_target = PW_ID_ANY,
               conn_flags = stream_flags, conn_params = [the_format 2]\<rparr>,
             ring = [], history = []\<rparr> \<and>
   parse_bag ''node.group=other media.role=Music''
     = Some [(''node.group'', ''other''), (''media.role'', ''Music'')] \<and>
   map_of (rev [(''node.group'', ''other''), (''media.role'', ''Music'')]) ''media.role'' = Some ''Music'' \<and>
   opt_group_name (fst (projr (parse_options
       [Opt_g ''mygroup'', Opt_C ''source-A'', Opt_i ''node.group=other media.role=Music'']
       (init_data example_env) None))) = Some ''mygroup'' \<and>
   latency (fst (projr (parse_options
       [Opt_g ''mygroup'', Opt_C ''source-A'', Opt_i ''node.group=other media.role=Music'']
       (init_data example_env) None))) = 0"
  using overlays_merged_before_engine_keys
    [of example_env
       "[Opt_g ''mygroup'', Opt_C ''source-A'', Opt_i ''node.group=other media.role=Music'']"
       example_world
       "\<lparr>stream_name = ''loopback capture'',
             properties = [(PW_KEY_NODE_TARGET, ''source-A''), (PW_KEY_NODE_GROUP, ''mygroup''),
                           (''media.role'', ''Music'')],
             stream_listener = Some In_stream_events,
             connection = Some \<lparr>conn_direction = PW_DIRECTION_INPUT, conn_target = PW_ID_ANY,
               conn_flags = stream_flags, conn_params = [the_format 2]\<rparr>,
             ring = [], history = []\<rparr>"
       "\<lparr>stream_name = ''loopback playback'', properties = [(PW_KEY_NODE_GROUP, ''mygroup'')],
             stream_listener = Some Out_stream_events,
             connection = Some \<lparr>conn_direction = PW_DIRECTION_OUTPUT, conn_target = PW_ID_ANY,
               conn_flags = stream_flags, conn_params = [the_format 2]\<rparr>,
             ring = [], history = []\<rparr>"]
  by (simp add: loopback_defs example_env_def utoa_examples parse_bag_overlay
      DEFAULT_CHANNELS_def DEFAULT_CHANNEL_MAP_def the_format_def)







subsection \<open>The channel map and the null sink\<close>


lemma put_map_simps [simp]:
  "put_map y (Inl c) = Inl c"
  "put_map y (Inr (d, r)) = Inr (d\<lparr>opt_channel_map := y\<rparr>, r)"
  by (simp_all add: put_map_def)

lemma map_last:
  "d\<lparr>opt_channel_map := x, opt_group_name := g\<rparr> = d\<lparr>opt_group_name := g, opt_channel_map := x\<rparr>"
  "d\<lparr>opt_channel_map := x, channels := c\<rparr> = d\<lparr>channels := c, opt_channel_map := x\<rparr>"
  "d\<lparr>opt_channel_map := x, latency := l\<rparr> = d\<lparr>latency := l, opt_channel_map := x\<rparr>"
  "d\<lparr>opt_channel_map := x, capture_props := cp\<rparr> = d\<lparr>capture_props := cp, opt_channel_map := x\<rparr>"
  "d\<lparr>opt_channel_map := x, playback_props := pp\<rparr> = d\<lparr>playback_props := pp, opt_channel_map := x\<rparr>"
  "d\<lparr>opt_channel_map := x, loop := lo\<rparr> = d\<lparr>loop := lo, opt_channel_map := x\<rparr>"
  "d\<lparr>opt_channel_map := x, pw_context := cx\<rparr> = d\<lparr>pw_context := cx, opt_channel_map := x\<rparr>"
  "d\<lparr>opt_channel_map := x, core := co\<rparr> = d\<lparr>core := co, opt_channel_map := x\<rparr>"
  "d\<lparr>opt_channel_map := x, core_listener := cl\<rparr> = d\<lparr>core_listener := cl, opt_channel_map := x\<rparr>"
  "d\<lparr>opt_channel_map := x, capture := ca\<rparr> = d\<lparr>capture := ca, opt_channel_map := x\<rparr>"
  "d\<lparr>opt_channel_map := x, playback := pl\<rparr> = d\<lparr>playback := pl, opt_channel_map := x\<rparr>"
  "d\<lparr>opt_channel_map := x, capture_listener := el\<rparr> = d\<lparr>capture_listener := el, opt_channel_map := x\<rparr>"
  "d\<lparr>opt_channel_map := x, playback_listener := el\<rparr> = d\<lparr>playback_listener := el, opt_channel_map := x\<rparr>"
  by (cases d, simp)+

lemma parse_options_with_map:
  "\<exists>y. parse_options (map (with_map m) opts) (d\<lparr>opt_channel_map := x\<rparr>) r
        = put_map y (parse_options opts d r)"
proof (induction opts d r arbitrary: x rule: parse_options.induct)
  case (1 d r)
  show ?case by (rule exI [of _ x]) simp
next
  case (7 optarg os d r)
  from "7.IH" [of "Some m"] show ?case by simp
next
  case (8 optarg os d r)
  show ?case
  proof (cases "latency_frames optarg")
    case None
    then show ?thesis by simp
  next
    case (Some l)
    from "8.IH" [OF Some, of x] Some show ?thesis by (simp add: map_last)
  qed
qed (simp_all add: map_last)

lemma set_group_map: "set_group (d\<lparr>opt_channel_map := x\<rparr>) = (set_group d)\<lparr>opt_channel_map := x\<rparr>"
  by (simp add: set_group_def map_last split: option.splits)

lemma set_latency_map: "set_latency (d\<lparr>opt_channel_map := x\<rparr>) = (set_latency d)\<lparr>opt_channel_map := x\<rparr>"
  by (simp add: set_latency_def map_last)

lemma connect_streams_map:
  "connect_streams e (d\<lparr>opt_channel_map := x\<rparr>) c p
     = apsnd (\<lambda>d'. d'\<lparr>opt_channel_map := x\<rparr>) (connect_streams e d c p)"
  by (simp add: connect_streams_def Let_def map_last split: prod.splits)

lemma setup_streams_map:
  "setup_streams e (d\<lparr>opt_channel_map := x\<rparr>)
     = apsnd (\<lambda>d'. d'\<lparr>opt_channel_map := x\<rparr>) (setup_streams e d)"
  by (simp add: setup_streams_def Let_def map_last connect_streams_map split: sum.splits)

lemma dispatch_map:
  "dispatch ev (d\<lparr>opt_channel_map := x\<rparr>) w
     = apfst (\<lambda>d'. d'\<lparr>opt_channel_map := x\<rparr>) (dispatch ev d w)"
  by (simp add: dispatch_def on_core_error_def do_quit_def pw_main_loop_quit_def Let_def map_last
      split: loop_event.splits)

lemma is_running_map: "is_running (d\<lparr>opt_channel_map := x\<rparr>) = is_running d"
  by (simp add: is_running_def)

lemma loop_iterate_map:
  "loop_iterate (d\<lparr>opt_channel_map := x\<rparr>) w evs
     = map_option (apfst (\<lambda>d'. d'\<lparr>opt_channel_map := x\<rparr>)) (loop_iterate d w evs)"
proof (induction evs arbitrary: d w)
  case Nil
  show ?case by simp
next
  case (Cons ev evs)
  obtain d1 w1 where step: "dispatch ev d w = (d1, w1)"
    by (cases "dispatch ev d w")
  then have "dispatch ev (d\<lparr>opt_channel_map := x\<rparr>) w = (d1\<lparr>opt_channel_map := x\<rparr>, w1)"
    by (simp add: dispatch_map)
  with step Cons.IH [of d1 w1] show ?case
    by (simp add: is_running_map)
qed

lemma run_main_map:
  "run_main e (d\<lparr>opt_channel_map := x\<rparr>) r w
     = (case run_main e d r w of (code, d', w') \<Rightarrow> (code, d'\<lparr>opt_channel_map := x\<rparr>, w'))"
  by (simp add: run_main_def Let_def map_last set_group_map set_latency_map setup_streams_map
      pw_main_loop_run_def loop_iterate_map split: option.splits prod.splits)

lemma main_with_map:
  "\<exists>y. main e (map (with_map m) opts) w
        = (case main e opts w of (code, d, w') \<Rightarrow> (code, d\<lparr>opt_channel_map := y\<rparr>, w'))
      \<or> main e (map (with_map m) opts) w = main e opts w"
proof -
  from parse_options_with_map
         [where m = m and opts = opts and d = "init_data e" and x = "opt_channel_map (init_data e)"
            and r = None]
  obtain y where y: "parse_options (map (with_map m) opts) (init_data e) None
      = put_map y (parse_options opts (init_data e) None)"
    by auto
  show ?thesis
  proof (cases "parse_options opts (init_data e) None")
    case (Inl c)
    with y show ?thesis by (simp add: main_def Let_def)
  next
    case (Inr dr)
    obtain d r where "dr = (d, r)" by (cases dr)
    with y Inr show ?thesis
      by (auto simp: main_def Let_def run_main_map split: prod.splits intro!: exI [of _ y])
  qed
qed


lemma main_ignores_map:
  "fst (main e (map (with_map m) opts) w) = fst (main e opts w) \<and>
   capture (fst (snd (main e (map (with_map m) opts) w))) = capture (fst (snd (main e opts w))) \<and>
   playback (fst (snd (main e (map (with_map m) opts) w))) = playback (fst (snd (main e opts w))) \<and>
   snd (snd (main e (map (with_map m) opts) w)) = snd (snd (main e opts w))"
proof -
  obtain code d w' where res: "main e opts w = (code, d, w')"
    by (cases "main e opts w")
  from main_with_map [of e m opts w] res
  have "(\<exists>y. main e (map (with_map m) opts) w = (code, d\<lparr>opt_channel_map := y\<rparr>, w')) \<or>
        main e (map (with_map m) opts) w = (code, d, w')"
    by simp
  with res show ?thesis by auto
qed


lemma add_props_get:
  "pw_properties_get (add_props ps str) k =
     (case parse_bag str of
        None \<Rightarrow> pw_properties_get ps k
      | Some kvs \<Rightarrow> (case map_of (rev kvs) k of Some v \<Rightarrow> Some v | None \<Rightarrow> pw_properties_get ps k))"
  by (simp add: add_props_def merge_items_get split: option.splits)

lemma map_of_rev_None: "map_of (rev kvs) k = None \<longleftrightarrow> k \<notin> fst ` set kvs"
  by (simp add: map_of_eq_None_iff)

lemma consume_sink_name_get:
  "pw_properties_get (consume_sink_name ps) k =
     (if k = ''sink_name'' then None
      else if k = PW_KEY_NODE_NAME
        then Some (case pw_properties_get ps ''sink_name'' of Some n \<Rightarrow> n | None \<Rightarrow> ''null'')
      else pw_properties_get ps k)"
  by (simp add: consume_sink_name_def get_set split: option.splits)

lemma consume_sink_properties_get:
  "pw_properties_get (consume_sink_properties ps) k =
     (if k = ''sink_properties'' then None
      else case map_of (rev (sink_properties_items ps)) k of
             Some v \<Rightarrow> Some v
           | None \<Rightarrow> pw_properties_get ps k)"
  by (auto simp: consume_sink_properties_def sink_properties_items_def get_set add_props_get
      split: option.splits)

lemma sink_properties_items_consume_sink_name:
  "sink_properties_items (consume_sink_name ps) = sink_properties_items ps"
  by (simp add: sink_properties_items_def consume_sink_name_get)

lemma arguments_dict_get:
  "pw_properties_get (arguments_dict x argument) k =
     (if k = ''sink_properties'' then None
      else case map_of (rev (sink_properties_items (initial_props x argument))) k of
             Some v \<Rightarrow> Some v
           | None \<Rightarrow>
               if k = ''sink_name'' then None
               else if k = PW_KEY_NODE_NAME
                 then Some (case pw_properties_get (initial_props x argument) ''sink_name'' of
                              Some n \<Rightarrow> n | None \<Rightarrow> ''null'')
               else pw_properties_get (initial_props x argument) k)"
  by (simp add: arguments_dict_def consume_sink_properties_get consume_sink_name_get
      sink_properties_items_consume_sink_name split: option.splits)

lemma consume_channels_get:
  "pw_properties_get (snd (consume_channels i ps)) k =
     (if k = ''channels'' then None
      else if k = SPA_KEY_AUDIO_CHANNELS
        then Some (case pw_properties_get ps ''channels'' of
                     Some str \<Rightarrow> str | None \<Rightarrow> utoa (unat (defs_sample_spec_channels i)))
      else pw_properties_get ps k)"
  by (cases "pw_properties_get ps ''channels''") (simp_all add: consume_channels_def get_set)

lemma consume_channels_fst:
  "fst (consume_channels i ps) =
     (case pw_properties_get ps ''channels'' of
        Some str \<Rightarrow> atoi str | None \<Rightarrow> defs_sample_spec_channels i)"
  by (cases "pw_properties_get ps ''channels''") (simp_all add: consume_channels_def)

lemma consume_rate_get:
  "pw_properties_get (consume_rate ps) k =
     (if k = ''rate'' then None
      else if k = SPA_KEY_AUDIO_RATE
        then (case pw_properties_get ps ''rate'' of
                Some str \<Rightarrow> Some str | None \<Rightarrow> pw_properties_get ps SPA_KEY_AUDIO_RATE)
      else pw_properties_get ps k)"
  by (cases "pw_properties_get ps ''rate''") (simp_all add: consume_rate_def get_set)

lemma consume_channel_map_Inl:
  "consume_channel_map x i chans ps = Inl f \<Longrightarrow>
     f = Out_of_bounds \<and> CHANNELS_MAX x < unat chans \<and>
     pw_properties_get ps ''channel_map'' = None"
  by (cases "pw_properties_get ps ''channel_map''")
     (auto simp: consume_channel_map_def unknown_map_def split: if_splits)

lemma consume_channel_map_Inr:
  "consume_channel_map x i chans ps = Inr (m, ps') \<Longrightarrow>
     pw_properties_get ps' k = (if k = ''channel_map'' then None else pw_properties_get ps k)"
  by (cases "pw_properties_get ps ''channel_map''")
     (auto simp: consume_channel_map_def unknown_map_def get_set split: if_splits)

lemma consume_channel_map_Some:
  "pw_properties_get ps ''channel_map'' = Some str \<Longrightarrow>
     consume_channel_map x i chans ps
       = Inr (channel_map_parse x str (CHANNEL_MAP_INIT x), pw_properties_set ps ''channel_map'' None)"
  by (simp add: consume_channel_map_def)

lemma consume_channel_map_returns:
  "unat chans \<le> CHANNELS_MAX x \<Longrightarrow> \<exists>m ps'. consume_channel_map x i chans ps = Inr (m, ps')"
  by (cases "pw_properties_get ps ''channel_map''")
     (auto simp: consume_channel_map_def unknown_map_def)

lemma parse_arguments_eq:
  "parse_arguments x i argument =
     (case consume_channel_map x i (fst (consume_channels i (arguments_dict x argument)))
             (consume_rate (snd (consume_channels i (arguments_dict x argument)))) of
        Inl f \<Rightarrow> Inl f
      | Inr r \<Rightarrow> Inr (fst (consume_channels i (arguments_dict x argument)), fst r, snd r))"
  by (simp add: parse_arguments_def Let_def split: prod.splits sum.splits)

lemma parse_arguments_Inl:
  assumes "parse_arguments x i argument = Inl f"
  shows "f = Out_of_bounds"
    and "CHANNELS_MAX x <
           unat (case pw_properties_get (arguments_dict x argument) ''channels'' of
                   Some s \<Rightarrow> atoi s | None \<Rightarrow> defs_sample_spec_channels i)"
proof -
  from assms have "consume_channel_map x i (fst (consume_channels i (arguments_dict x argument)))
             (consume_rate (snd (consume_channels i (arguments_dict x argument)))) = Inl f"
    by (simp add: parse_arguments_eq split: sum.splits)
  from consume_channel_map_Inl [OF this]
  show "f = Out_of_bounds"
    and "CHANNELS_MAX x <
           unat (case pw_properties_get (arguments_dict x argument) ''channels'' of
                   Some s \<Rightarrow> atoi s | None \<Rightarrow> defs_sample_spec_channels i)"
    by (simp_all add: consume_channels_fst)
qed

lemma parse_arguments_Inr:
  assumes "parse_arguments x i argument = Inr (chans, m, ps)"
  shows "chans = (case pw_properties_get (arguments_dict x argument) ''channels'' of
                    Some s \<Rightarrow> atoi s | None \<Rightarrow> defs_sample_spec_channels i)"
    and "pw_properties_get ps k = parsed_value x i argument k"
proof -
  from assms have c: "consume_channel_map x i (fst (consume_channels i (arguments_dict x argument)))
             (consume_rate (snd (consume_channels i (arguments_dict x argument)))) = Inr (m, ps)"
    and f: "chans = fst (consume_channels i (arguments_dict x argument))"
    by (auto simp: parse_arguments_eq split: sum.splits)
  from f show "chans = (case pw_properties_get (arguments_dict x argument) ''channels'' of
                    Some s \<Rightarrow> atoi s | None \<Rightarrow> defs_sample_spec_channels i)"
    by (simp add: consume_channels_fst)
  show "pw_properties_get ps k = parsed_value x i argument k"
    by (simp add: consume_channel_map_Inr [OF c] consume_rate_get consume_channels_get
        parsed_value_def split: option.splits)
qed

lemma parse_arguments_Some:
  assumes "pw_properties_get (arguments_dict x argument) ''channel_map'' = Some str"
  shows "\<exists>ps. parse_arguments x i argument
           = Inr (case pw_properties_get (arguments_dict x argument) ''channels'' of
                    Some s \<Rightarrow> atoi s | None \<Rightarrow> defs_sample_spec_channels i,
                  channel_map_parse x str (CHANNEL_MAP_INIT x), ps)"
proof -
  have "pw_properties_get (consume_rate (snd (consume_channels i (arguments_dict x argument))))
          ''channel_map'' = Some str"
    using assms by (simp add: consume_rate_get consume_channels_get)
  from consume_channel_map_Some [OF this]
  show ?thesis
    by (simp add: parse_arguments_eq consume_channels_fst)
qed

lemma parse_arguments_returns:
  assumes "unat (case pw_properties_get (arguments_dict x argument) ''channels'' of
                   Some s \<Rightarrow> atoi s | None \<Rightarrow> defs_sample_spec_channels i) \<le> CHANNELS_MAX x"
  shows "\<exists>chans m ps. parse_arguments x i argument = Inr (chans, m, ps)"
proof -
  from assms have "unat (fst (consume_channels i (arguments_dict x argument))) \<le> CHANNELS_MAX x"
    by (simp add: consume_channels_fst)
  from consume_channel_map_returns [OF this]
  obtain m ps' where "consume_channel_map x i (fst (consume_channels i (arguments_dict x argument)))
             (consume_rate (snd (consume_channels i (arguments_dict x argument)))) = Inr (m, ps')"
    by blast
  then show ?thesis by (simp add: parse_arguments_eq)
qed

lemma snprintf_pieces_Inl:
  "snprintf_pieces n p pieces = Inl f \<Longrightarrow> f = Out_of_bounds"
  by (induction pieces arbitrary: p) (auto split: if_splits sum.splits)

lemma snprintf_pieces_returns:
  "\<forall>piece \<in> set pieces. length piece \<le> 6 \<Longrightarrow> p + 6 * length pieces \<le> n \<Longrightarrow>
     \<exists>str. snprintf_pieces n p pieces = Inr str"
proof (induction pieces arbitrary: p)
  case Nil
  then show ?case by simp
next
  case (Cons piece pieces)
  have "p + length piece + 6 * length pieces \<le> n"
    using Cons.prems by simp
  with Cons.IH [of "p + length piece"] Cons.prems(1)
  obtain str where "snprintf_pieces n (p + length piece) pieces = Inr str"
    by auto
  moreover have "\<not> n < p + min (length piece) 5 + 1"
    using Cons.prems(2) by simp
  ultimately show ?case by simp
qed

lemma position_string_Inl:
  "position_string x m = Inl f \<Longrightarrow> f = Out_of_bounds"
  by (auto simp: position_string_def dest: snprintf_pieces_Inl split: if_splits)

lemma position_string_returns:
  assumes "unat (cm_channels m) \<le> CHANNELS_MAX x" and "CHANNELS_MAX x * 6 < 2 ^ 32"
    and "\<forall>c. length (channel_id2name x c) \<le> 5"
  shows "\<exists>str. position_string x m = Inr str"
proof -
  have "unat (cm_channels m) * unat (6 :: 32 word) < 2 ^ 32"
    using assms(1,2) by simp
  then have n: "unat (cm_channels m * 6) = unat (cm_channels m) * 6"
    by (simp add: unat_mult_lem [THEN iffD1])
  have "\<exists>str. snprintf_pieces (unat (cm_channels m * 6)) 0
             (map (\<lambda>i. (if i = 0 then [] else '','') @ channel_id2name x (cm_map m i))
                [0..<unat (cm_channels m)]) = Inr str"
  proof (rule snprintf_pieces_returns)
    show "\<forall>piece\<in>set (map (\<lambda>i. (if i = 0 then [] else '','') @ channel_id2name x (cm_map m i))
                [0..<unat (cm_channels m)]). length piece \<le> 6"
    proof
      fix piece
      assume "piece \<in> set (map (\<lambda>i. (if i = 0 then [] else '','') @ channel_id2name x (cm_map m i))
                [0..<unat (cm_channels m)])"
      then obtain j where "piece = (if j = 0 then [] else '','') @ channel_id2name x (cm_map m j)"
        by auto
      moreover have "length (channel_id2name x (cm_map m j)) \<le> 5"
        using assms(3) by blast
      ultimately show "length piece \<le> 6" by (cases "j = 0") simp_all
    qed
    show "0 + 6 * length (map (\<lambda>i. (if i = 0 then [] else '','') @ channel_id2name x (cm_map m i))
                [0..<unat (cm_channels m)]) \<le> unat (cm_channels m * 6)"
      by (simp add: n)
  qed
  with assms(1) show ?thesis by (simp add: position_string_def)
qed

lemma set_position_Inl:
  "set_position x m ps = Inl f \<Longrightarrow> f = Out_of_bounds"
  by (auto simp: set_position_def dest: position_string_Inl split: if_splits sum.splits)

lemma set_position_Inr:
  "set_position x m ps = Inr ps' \<Longrightarrow> k \<noteq> SPA_KEY_AUDIO_POSITION \<Longrightarrow>
     pw_properties_get ps' k = pw_properties_get ps k"
  by (auto simp: set_position_def get_set split: if_splits sum.splits)

lemma set_position_returns:
  assumes "unat (cm_channels m) \<le> CHANNELS_MAX x" and "CHANNELS_MAX x * 6 < 2 ^ 32"
    and "\<forall>c. length (channel_id2name x c) \<le> 5"
  shows "\<exists>ps'. set_position x m ps = Inr ps'"
  using position_string_returns [OF assms] by (auto simp: set_position_def)

lemma set_media_class_get:
  "pw_properties_get (set_media_class ps) k =
     (if k = PW_KEY_MEDIA_CLASS \<and> pw_properties_get ps PW_KEY_MEDIA_CLASS = None
      then Some ''Audio/Sink'' else pw_properties_get ps k)"
  by (simp add: set_media_class_def get_set)

lemma set_description_Inr:
  assumes "pw_properties_get ps PW_KEY_NODE_NAME \<noteq> None"
  shows "\<exists>ps'. set_description ps = Inr ps' \<and>
           (\<forall>k. k \<noteq> ''device.description'' \<and> k \<noteq> PW_KEY_NODE_DESCRIPTION \<longrightarrow>
                pw_properties_get ps' k = pw_properties_get ps k)"
proof (cases "pw_properties_get ps ''device.description''")
  case None
  with assms show ?thesis
    by (auto simp: set_description_def get_set Let_def)
next
  case (Some str)
  then show ?thesis
    by (simp add: set_description_def get_set)
qed

lemma arguments_dict_node_name:
  "pw_properties_get (arguments_dict x argument) PW_KEY_NODE_NAME \<noteq> None"
  by (simp add: arguments_dict_get split: option.splits)

lemma parsed_value_node_name:
  "parsed_value x i argument PW_KEY_NODE_NAME
     = pw_properties_get (arguments_dict x argument) PW_KEY_NODE_NAME"
  "parsed_value x i argument PW_KEY_MEDIA_CLASS
     = pw_properties_get (arguments_dict x argument) PW_KEY_MEDIA_CLASS"
  by (simp_all add: parsed_value_def)

text \<open>
  After the channel map is found to match the channel count, the function either stores
  beyond a block while it writes the position string or goes on to \<^verbatim>\<open>module_new\<close>.
\<close>

lemma create_module_null_sink_matched:
  assumes ok: "properties_new_ok x"
    and pa: "parse_arguments x i argument = Inr (chans, m, ps)"
    and match: "cm_channels m = chans"
  shows "(create_module_null_sink x i argument = Fault Out_of_bounds \<and>
            set_position x m ps = Inl Out_of_bounds) \<or>
         (\<exists>ps'. create_module_null_sink x i argument = finish_module x ps' \<and>
            (\<forall>k. k \<noteq> ''device.description'' \<and> k \<noteq> PW_KEY_NODE_DESCRIPTION \<and>
                 k \<noteq> SPA_KEY_AUDIO_POSITION \<longrightarrow>
               pw_properties_get ps' k =
                 (if k = PW_KEY_MEDIA_CLASS \<and>
                     pw_properties_get (arguments_dict x argument) PW_KEY_MEDIA_CLASS = None
                  then Some ''Audio/Sink''
                  else parsed_value x i argument k)))"
proof (cases "set_position x m ps")
  case (Inl f)
  with set_position_Inl [OF Inl] ok pa match show ?thesis
    by (simp add: create_module_null_sink_def)
next
  case (Inr ps1)
  have g1: "pw_properties_get ps1 k = parsed_value x i argument k" if "k \<noteq> SPA_KEY_AUDIO_POSITION" for k
    using set_position_Inr [OF Inr that] by (simp add: parse_arguments_Inr(2) [OF pa])
  have name: "pw_properties_get (set_media_class ps1) PW_KEY_NODE_NAME \<noteq> None"
    using arguments_dict_node_name [of x argument]
    by (simp add: set_media_class_get g1 parsed_value_node_name)
  from set_description_Inr [OF name] obtain ps' where
    d: "set_description (set_media_class ps1) = Inr ps'"
      "\<forall>k. k \<noteq> ''device.description'' \<and> k \<noteq> PW_KEY_NODE_DESCRIPTION \<longrightarrow>
           pw_properties_get ps' k = pw_properties_get (set_media_class ps1) k"
    by blast
  have c: "create_module_null_sink x i argument = finish_module x ps'"
    using ok pa match Inr d(1) by (simp add: create_module_null_sink_def)
  have "pw_properties_get ps' k =
                 (if k = PW_KEY_MEDIA_CLASS \<and>
                     pw_properties_get (arguments_dict x argument) PW_KEY_MEDIA_CLASS = None
                  then Some ''Audio/Sink''
                  else parsed_value x i argument k)"
    if "k \<noteq> ''device.description'' \<and> k \<noteq> PW_KEY_NODE_DESCRIPTION \<and> k \<noteq> SPA_KEY_AUDIO_POSITION"
    for k
    using d(2) that by (simp add: set_media_class_get g1 parsed_value_node_name)
  with c show ?thesis by blast
qed

lemma finish_module_props:
  assumes "finish_module x ps' = Returned_module m"
  shows "props m = Some (pw_properties_set
                  (pw_properties_set ps' PW_KEY_FACTORY_NAME (Some ''support.null-audio-sink''))
                  PW_KEY_OBJECT_LINGER (Some ''true''))"
  using assms by (auto simp: finish_module_def Let_def split: option.splits)

lemma finish_module_NULL:
  assumes "finish_module x ps' = Returned_NULL e f"
  shows "module_new_errno x = Some e \<and> f \<noteq> None"
  using assms by (auto simp: finish_module_def Let_def split: option.splits)

lemma finish_module_returns:
  "is_module (finish_module x ps') \<or> is_NULL (finish_module x ps')"
  by (simp add: finish_module_def Let_def split: option.splits)

lemma finish_module_no_fault:
  "finish_module x ps' \<noteq> Fault f"
  by (simp add: finish_module_def Let_def split: option.splits)

text \<open>The three ways the function ends once the dictionary exists.\<close>

lemma create_module_null_sink_cases:
  assumes ok: "properties_new_ok x"
  shows "create_module_null_sink x i argument = Fault Out_of_bounds \<or>
         (\<exists>ps. create_module_null_sink x i argument = Returned_NULL EINVAL (Some ps)) \<or>
         (\<exists>ps'. create_module_null_sink x i argument = finish_module x ps' \<and>
            (\<forall>k. k \<noteq> ''device.description'' \<and> k \<noteq> PW_KEY_NODE_DESCRIPTION \<and>
                 k \<noteq> SPA_KEY_AUDIO_POSITION \<longrightarrow>
               pw_properties_get
                 (pw_properties_set
                    (pw_properties_set ps' PW_KEY_FACTORY_NAME (Some ''support.null-audio-sink''))
                    PW_KEY_OBJECT_LINGER (Some ''true'')) k = final_value x i argument k))"
proof (cases "parse_arguments x i argument")
  case (Inl f)
  with parse_arguments_Inl(1) [OF Inl] ok show ?thesis
    by (simp add: create_module_null_sink_def)
next
  case (Inr r)
  obtain chans m ps where r: "r = (chans, m, ps)" by (cases r)
  note pa = Inr [unfolded r]
  show ?thesis
  proof (cases "cm_channels m = chans")
    case False
    with ok pa show ?thesis by (simp add: create_module_null_sink_def)
  next
    case True
    from create_module_null_sink_matched [OF ok pa True]
    show ?thesis
    proof
      assume "create_module_null_sink x i argument = Fault Out_of_bounds \<and>
            set_position x m ps = Inl Out_of_bounds"
      then show ?thesis by simp
    next
      assume "\<exists>ps'. create_module_null_sink x i argument = finish_module x ps' \<and>
            (\<forall>k. k \<noteq> ''device.description'' \<and> k \<noteq> PW_KEY_NODE_DESCRIPTION \<and>
                 k \<noteq> SPA_KEY_AUDIO_POSITION \<longrightarrow>
               pw_properties_get ps' k =
                 (if k = PW_KEY_MEDIA_CLASS \<and>
                     pw_properties_get (arguments_dict x argument) PW_KEY_MEDIA_CLASS = None
                  then Some ''Audio/Sink''
                  else parsed_value x i argument k))"
      then obtain ps' where c: "create_module_null_sink x i argument = finish_module x ps'"
        and g: "\<forall>k. k \<noteq> ''device.description'' \<and> k \<noteq> PW_KEY_NODE_DESCRIPTION \<and>
                 k \<noteq> SPA_KEY_AUDIO_POSITION \<longrightarrow>
               pw_properties_get ps' k =
                 (if k = PW_KEY_MEDIA_CLASS \<and>
                     pw_properties_get (arguments_dict x argument) PW_KEY_MEDIA_CLASS = None
                  then Some ''Audio/Sink''
                  else parsed_value x i argument k)"
        by blast
      have "pw_properties_get
                 (pw_properties_set
                    (pw_properties_set ps' PW_KEY_FACTORY_NAME (Some ''support.null-audio-sink''))
                    PW_KEY_OBJECT_LINGER (Some ''true'')) k = final_value x i argument k"
        if "k \<noteq> ''device.description'' \<and> k \<noteq> PW_KEY_NODE_DESCRIPTION \<and> k \<noteq> SPA_KEY_AUDIO_POSITION"
        for k
        using g that by (simp add: get_set final_value_def)
      with c show ?thesis by blast
    qed
  qed
qed

text \<open>Within the bounds of the array and of the block the function returns.\<close>

lemma create_module_null_sink_returns:
  assumes "unat (case pw_properties_get (arguments_dict x argument) ''channels'' of
                   Some s \<Rightarrow> atoi s | None \<Rightarrow> defs_sample_spec_channels i) \<le> CHANNELS_MAX x"
    and "CHANNELS_MAX x * 6 < 2 ^ 32"
    and "\<forall>c. length (channel_id2name x c) \<le> 5"
  shows "is_module (create_module_null_sink x i argument) \<or>
         is_NULL (create_module_null_sink x i argument)"
proof (cases "properties_new_ok x")
  case False
  then show ?thesis by (simp add: create_module_null_sink_def)
next
  case ok: True
  from parse_arguments_returns [OF assms(1)]
  obtain chans m ps where pa: "parse_arguments x i argument = Inr (chans, m, ps)"
    by blast
  show ?thesis
  proof (cases "cm_channels m = chans")
    case False
    with ok pa show ?thesis by (simp add: create_module_null_sink_def)
  next
    case True
    have "unat (cm_channels m) \<le> CHANNELS_MAX x"
      using assms(1) True parse_arguments_Inr(1) [OF pa] by simp
    from set_position_returns [OF this assms(2,3)]
    obtain ps1 where "set_position x m ps = Inr ps1" by blast
    with create_module_null_sink_matched [OF ok pa True]
    obtain ps' where "create_module_null_sink x i argument = finish_module x ps'"
      by auto
    with finish_module_returns [of x ps'] show ?thesis by simp
  qed
qed

lemma create_module_null_sink_mismatch:
  assumes "properties_new_ok x"
    and "pw_properties_get (arguments_dict x argument) ''channel_map'' = Some str"
    and "cm_channels (channel_map_parse x str (CHANNEL_MAP_INIT x)) \<noteq>
          (case pw_properties_get (arguments_dict x argument) ''channels'' of
             Some s \<Rightarrow> atoi s | None \<Rightarrow> defs_sample_spec_channels i)"
  shows "\<exists>ps. create_module_null_sink x i argument = Returned_NULL EINVAL (Some ps)"
proof -
  from parse_arguments_Some [OF assms(2), of i] obtain ps where
    "parse_arguments x i argument
           = Inr (case pw_properties_get (arguments_dict x argument) ''channels'' of
                    Some s \<Rightarrow> atoi s | None \<Rightarrow> defs_sample_spec_channels i,
                  channel_map_parse x str (CHANNEL_MAP_INIT x), ps)"
    by blast
  with assms(1,3) show ?thesis
    by (simp add: create_module_null_sink_def)
qed

lemma final_values:
  "final_value x i argument PW_KEY_FACTORY_NAME = Some ''support.null-audio-sink''"
  "final_value x i argument PW_KEY_OBJECT_LINGER = Some ''true''"
  "final_value x i argument PW_KEY_NODE_NAME \<noteq> None"
  "final_value x i argument PW_KEY_MEDIA_CLASS \<noteq> None"
  "final_value x i argument ''sink_properties'' = None"
  "final_value x i argument ''channels'' = None"
  "final_value x i argument ''rate'' = None"
  "final_value x i argument ''channel_map'' = None"
  using arguments_dict_node_name [of x argument]
  by (simp_all add: final_value_def parsed_value_def arguments_dict_get)

lemma final_values_sink_properties:
  "''sink_name'' \<notin> fst ` set (sink_properties_items (initial_props x argument)) \<Longrightarrow>
     final_value x i argument ''sink_name'' = None"
  "PW_KEY_NODE_NAME \<notin> fst ` set (sink_properties_items (initial_props x argument)) \<Longrightarrow>
     final_value x i argument PW_KEY_NODE_NAME =
       Some (case pw_properties_get (initial_props x argument) ''sink_name'' of
               Some n \<Rightarrow> n | None \<Rightarrow> ''null'')"
  "pw_properties_get (initial_props x argument) PW_KEY_MEDIA_CLASS = None \<Longrightarrow>
   PW_KEY_MEDIA_CLASS \<notin> fst ` set (sink_properties_items (initial_props x argument)) \<Longrightarrow>
     final_value x i argument PW_KEY_MEDIA_CLASS = Some ''Audio/Sink''"
  by (simp_all add: final_value_def parsed_value_def arguments_dict_get
      map_of_rev_None [symmetric])


text \<open>
  C10, amended. A module that the function returns has \<^verbatim>\<open>factory.name\<close>, \<^verbatim>\<open>object.linger\<close>,
  a \<^verbatim>\<open>node.name\<close> and a \<^verbatim>\<open>media.class\<close> in its dictionary, and none of \<^verbatim>\<open>sink_properties\<close>,
  \<^verbatim>\<open>channels\<close>, \<^verbatim>\<open>rate\<close>, \<^verbatim>\<open>channel_map\<close>; it has no \<^verbatim>\<open>sink_name\<close> unless the items of
  \<^verbatim>\<open>sink_properties\<close> bring one, its \<^verbatim>\<open>node.name\<close> is the \<^verbatim>\<open>sink_name\<close> argument or \<^verbatim>\<open>null\<close>
  unless those items name it, and its \<^verbatim>\<open>media.class\<close> is \<^verbatim>\<open>Audio/Sink\<close> when nothing sets it.
  When the function returns \<^verbatim>\<open>NULL\<close>, \<^verbatim>\<open>errno\<close> is \<^verbatim>\<open>EINVAL\<close> or the one of \<^verbatim>\<open>module_new\<close>, and
  the dictionary is freed whenever it was created. The function never reads through a null
  pointer. It returns, a module or \<^verbatim>\<open>NULL\<close>, whenever the channel count is at most
  \<^verbatim>\<open>CHANNELS_MAX\<close>, six times \<^verbatim>\<open>CHANNELS_MAX\<close> is below \<open>2 ^ 32\<close> and no channel name is
  longer than five characters.
\<close>

theorem null_sink_module_properties:
  "(case create_module_null_sink x i argument of
      Returned_module m \<Rightarrow>
        (case props m of
           None \<Rightarrow> False
         | Some ps \<Rightarrow>
             pw_properties_get ps PW_KEY_FACTORY_NAME = Some ''support.null-audio-sink'' \<and>
             pw_properties_get ps PW_KEY_OBJECT_LINGER = Some ''true'' \<and>
             pw_properties_get ps PW_KEY_NODE_NAME \<noteq> None \<and>
             pw_properties_get ps PW_KEY_MEDIA_CLASS \<noteq> None \<and>
             pw_properties_get ps ''sink_properties'' = None \<and>
             pw_properties_get ps ''channels'' = None \<and>
             pw_properties_get ps ''rate'' = None \<and>
             pw_properties_get ps ''channel_map'' = None \<and>
             (''sink_name'' \<notin> fst ` set (sink_properties_items (initial_props x argument)) \<longrightarrow>
                pw_properties_get ps ''sink_name'' = None) \<and>
             (PW_KEY_NODE_NAME \<notin> fst ` set (sink_properties_items (initial_props x argument)) \<longrightarrow>
                pw_properties_get ps PW_KEY_NODE_NAME =
                  Some (case pw_properties_get (initial_props x argument) ''sink_name'' of
                          Some n \<Rightarrow> n | None \<Rightarrow> ''null'')) \<and>
             (pw_properties_get (initial_props x argument) PW_KEY_MEDIA_CLASS = None \<and>
              PW_KEY_MEDIA_CLASS \<notin> fst ` set (sink_properties_items (initial_props x argument)) \<longrightarrow>
                pw_properties_get ps PW_KEY_MEDIA_CLASS = Some ''Audio/Sink''))
    | Returned_NULL e f \<Rightarrow>
        (e = EINVAL \<or> module_new_errno x = Some e) \<and> (f = None \<longleftrightarrow> \<not> properties_new_ok x)
    | Fault flt \<Rightarrow> flt = Out_of_bounds) \<and>
   (unat (case pw_properties_get (arguments_dict x argument) ''channels'' of
            Some s \<Rightarrow> atoi s | None \<Rightarrow> defs_sample_spec_channels i) \<le> CHANNELS_MAX x \<and>
    CHANNELS_MAX x * 6 < 2 ^ 32 \<and>
    (\<forall>c. length (channel_id2name x c) \<le> 5)
    \<longrightarrow> is_module (create_module_null_sink x i argument) \<or>
        is_NULL (create_module_null_sink x i argument))"
proof (rule conjI)
  show "unat (case pw_properties_get (arguments_dict x argument) ''channels'' of
            Some s \<Rightarrow> atoi s | None \<Rightarrow> defs_sample_spec_channels i) \<le> CHANNELS_MAX x \<and>
    CHANNELS_MAX x * 6 < 2 ^ 32 \<and>
    (\<forall>c. length (channel_id2name x c) \<le> 5)
    \<longrightarrow> is_module (create_module_null_sink x i argument) \<or>
        is_NULL (create_module_null_sink x i argument)"
    using create_module_null_sink_returns [where x = x and argument = argument and i = i] by blast
next
  let ?goal = "case create_module_null_sink x i argument of
      Returned_module m \<Rightarrow>
        (case props m of
           None \<Rightarrow> False
         | Some ps \<Rightarrow>
             pw_properties_get ps PW_KEY_FACTORY_NAME = Some ''support.null-audio-sink'' \<and>
             pw_properties_get ps PW_KEY_OBJECT_LINGER = Some ''true'' \<and>
             pw_properties_get ps PW_KEY_NODE_NAME \<noteq> None \<and>
             pw_properties_get ps PW_KEY_MEDIA_CLASS \<noteq> None \<and>
             pw_properties_get ps ''sink_properties'' = None \<and>
             pw_properties_get ps ''channels'' = None \<and>
             pw_properties_get ps ''rate'' = None \<and>
             pw_properties_get ps ''channel_map'' = None \<and>
             (''sink_name'' \<notin> fst ` set (sink_properties_items (initial_props x argument)) \<longrightarrow>
                pw_properties_get ps ''sink_name'' = None) \<and>
             (PW_KEY_NODE_NAME \<notin> fst ` set (sink_properties_items (initial_props x argument)) \<longrightarrow>
                pw_properties_get ps PW_KEY_NODE_NAME =
                  Some (case pw_properties_get (initial_props x argument) ''sink_name'' of
                          Some n \<Rightarrow> n | None \<Rightarrow> ''null'')) \<and>
             (pw_properties_get (initial_props x argument) PW_KEY_MEDIA_CLASS = None \<and>
              PW_KEY_MEDIA_CLASS \<notin> fst ` set (sink_properties_items (initial_props x argument)) \<longrightarrow>
                pw_properties_get ps PW_KEY_MEDIA_CLASS = Some ''Audio/Sink''))
    | Returned_NULL e f \<Rightarrow>
        (e = EINVAL \<or> module_new_errno x = Some e) \<and> (f = None \<longleftrightarrow> \<not> properties_new_ok x)
    | Fault flt \<Rightarrow> flt = Out_of_bounds"
  show ?goal
  proof (cases "properties_new_ok x")
    case False
    then show ?thesis by (simp add: create_module_null_sink_def)
  next
    case ok: True
    from create_module_null_sink_cases [OF ok, of i argument]
    consider
      (fault) "create_module_null_sink x i argument = Fault Out_of_bounds"
    | (mismatch) ps where "create_module_null_sink x i argument = Returned_NULL EINVAL (Some ps)"
    | (finish) ps' where "create_module_null_sink x i argument = finish_module x ps'"
        "\<forall>k. k \<noteq> ''device.description'' \<and> k \<noteq> PW_KEY_NODE_DESCRIPTION \<and>
                 k \<noteq> SPA_KEY_AUDIO_POSITION \<longrightarrow>
               pw_properties_get
                 (pw_properties_set
                    (pw_properties_set ps' PW_KEY_FACTORY_NAME (Some ''support.null-audio-sink''))
                    PW_KEY_OBJECT_LINGER (Some ''true'')) k = final_value x i argument k"
      by blast
    then show ?thesis
    proof cases
      case fault
      then show ?thesis by simp
    next
      case mismatch
      with ok show ?thesis by simp
    next
      case finish
      show ?thesis
      proof (cases "module_new_errno x")
        case (Some e)
        with finish(1) ok show ?thesis by (simp add: finish_module_def Let_def)
      next
        case None
        define ps where "ps = pw_properties_set
                    (pw_properties_set ps' PW_KEY_FACTORY_NAME (Some ''support.null-audio-sink''))
                    PW_KEY_OBJECT_LINGER (Some ''true'')"
        define m where "m = \<lparr>methods = Module_null_sink_methods, props = Some ps,
                  user_data = \<lparr>proxy = None, global_id = SPA_ID_INVALID\<rparr>\<rparr>"
        have r: "create_module_null_sink x i argument = Returned_module m" "props m = Some ps"
          using finish(1) None by (simp_all add: finish_module_def Let_def ps_def m_def)
        have g: "\<forall>k. k \<noteq> ''device.description'' \<and> k \<noteq> PW_KEY_NODE_DESCRIPTION \<and>
                  k \<noteq> SPA_KEY_AUDIO_POSITION \<longrightarrow> pw_properties_get ps k = final_value x i argument k"
          using finish(2) by (simp only: ps_def)
        have v: "pw_properties_get ps PW_KEY_FACTORY_NAME = final_value x i argument PW_KEY_FACTORY_NAME"
          "pw_properties_get ps PW_KEY_OBJECT_LINGER = final_value x i argument PW_KEY_OBJECT_LINGER"
          "pw_properties_get ps PW_KEY_NODE_NAME = final_value x i argument PW_KEY_NODE_NAME"
          "pw_properties_get ps PW_KEY_MEDIA_CLASS = final_value x i argument PW_KEY_MEDIA_CLASS"
          "pw_properties_get ps ''sink_properties'' = final_value x i argument ''sink_properties''"
          "pw_properties_get ps ''channels'' = final_value x i argument ''channels''"
          "pw_properties_get ps ''rate'' = final_value x i argument ''rate''"
          "pw_properties_get ps ''channel_map'' = final_value x i argument ''channel_map''"
          "pw_properties_get ps ''sink_name'' = final_value x i argument ''sink_name''"
          using g by simp_all
        show ?thesis
          unfolding r outcome.case r(2) option.case v
          using final_values [of x i argument] final_values_sink_properties [of x argument i]
          by (intro conjI impI) (simp_all only: not_False_eq_True)
      qed
    qed
  qed
qed

lemmas null_sink_defs =
  create_module_null_sink_def parse_arguments_def arguments_dict_def initial_props_def
  pw_properties_new_dict_def module_null_sink_info_def add_props_def merge_items_def
  consume_sink_name_def consume_sink_properties_def consume_channels_def consume_rate_def
  consume_channel_map_def unknown_map_def set_position_def position_string_def
  set_media_class_def set_description_def finish_module_def sink_properties_items_def
  pw_properties_set_def pw_properties_get_def Let_def

lemma parse_bag_null_sink:
  \<open>parse_bag ''sink_properties="sink_name=x "'' = Some [(''sink_properties'', ''sink_name=x '')]\<close>
  "parse_bag ''sink_name=x '' = Some [(''sink_name'', ''x'')]"
  "parse_bag ''sink_name=foo channels=2 rate=44100''
     = Some [(''sink_name'', ''foo''), (''channels'', ''2''), (''rate'', ''44100'')]"
  "parse_bag ''channels=2 channel_map=FL'' = Some [(''channels'', ''2''), (''channel_map'', ''FL'')]"
  "parse_bag ''channels=-1'' = Some [(''channels'', ''-1'')]"
  by (simp_all add: parse_bag.simps is_space_def value_token_def)

lemma upt_0_2: "[0..<2] = [0, 1]"
  by (simp add: numeral_2_eq_2)

lemma utoa_2: "utoa 2 = ''2''"
  by (simp add: utoa.simps)

lemma atoi_minus_1: "atoi ''-1'' = - 1"
  by (simp add: atoi_def strtol_def isspace_def isdigit_def)

text \<open>
  With \<^verbatim>\<open>channels=-1\<close> and no channel map the count is \<open>2\<^sup>3\<^sup>2 - 1\<close> and the loop that
  fills the map stores beyond the array.
\<close>

lemma create_module_null_sink_beyond_array:
  "unat (atoi ''-1'') = 4294967295"
  "create_module_null_sink example_externs example_impl (Some ''channels=-1'') = Fault Out_of_bounds"
  by (simp_all add: null_sink_defs example_externs_def example_impl_def parse_bag_null_sink
      atoi_minus_1 unsigned_minus_1_eq_mask mask_eq_exp_minus_1)

text \<open>
  C10, as the specification states it, fails: \<^verbatim>\<open>sink_properties\<close> is merged after \<^verbatim>\<open>sink_name\<close> is
  consumed, so a \<^verbatim>\<open>sink_name\<close> among its items stays in the dictionary of the module.
\<close>

theorem null_sink_keys_counterexample:
  \<open>is_module (create_module_null_sink example_externs example_impl
      (Some ''sink_properties="sink_name=x "'')) \<and>
   pw_properties_get
     (the (props (the_module (create_module_null_sink example_externs example_impl
        (Some ''sink_properties="sink_name=x "'')))))
     ''sink_name'' = Some ''x''\<close>
  by (simp add: null_sink_defs example_externs_def example_impl_def parse_bag_null_sink utoa_2
      atoi_2 upt_0_2)

theorem null_sink_module_properties_witness:
  "''sink_name'' \<notin> fst ` set (sink_properties_items
       (initial_props example_externs (Some ''sink_name=foo channels=2 rate=44100''))) \<and>
   PW_KEY_NODE_NAME \<notin> fst ` set (sink_properties_items
       (initial_props example_externs (Some ''sink_name=foo channels=2 rate=44100''))) \<and>
   pw_properties_get (initial_props example_externs (Some ''sink_name=foo channels=2 rate=44100''))
     PW_KEY_MEDIA_CLASS = None \<and>
   PW_KEY_MEDIA_CLASS \<notin> fst ` set (sink_properties_items
       (initial_props example_externs (Some ''sink_name=foo channels=2 rate=44100''))) \<and>
   pw_properties_get (arguments_dict example_externs (Some ''sink_name=foo channels=2 rate=44100''))
     ''channels'' = Some ''2'' \<and>
   unat (atoi ''2'') \<le> CHANNELS_MAX example_externs \<and>
   CHANNELS_MAX example_externs * 6 < 2 ^ 32 \<and>
   is_module (create_module_null_sink example_externs example_impl
       (Some ''sink_name=foo channels=2 rate=44100'')) \<and>
   pw_properties_get
     (the (props (the_module (create_module_null_sink example_externs example_impl
        (Some ''sink_name=foo channels=2 rate=44100'')))))
     PW_KEY_NODE_NAME = Some ''foo'' \<and>
   pw_properties_get
     (the (props (the_module (create_module_null_sink example_externs example_impl
        (Some ''sink_name=foo channels=2 rate=44100'')))))
     ''sink_name'' = None \<and>
   create_module_null_sink example_externs example_impl (Some ''channels=2 channel_map=FL'')
     = Returned_NULL EINVAL
         (freed (create_module_null_sink example_externs example_impl (Some ''channels=2 channel_map=FL''))) \<and>
   freed (create_module_null_sink example_externs example_impl (Some ''channels=2 channel_map=FL''))
     \<noteq> None"
  using null_sink_module_properties
          [where x = example_externs and i = example_impl
             and argument = "Some ''sink_name=foo channels=2 rate=44100''"]
        null_sink_module_properties
          [where x = example_externs and i = example_impl
             and argument = "Some ''channels=2 channel_map=FL''"]
  by (simp add: null_sink_defs example_externs_def example_impl_def parse_bag_null_sink utoa_2
      atoi_2 upt_0_2)


text \<open>
  C7, as the specification states it, fails for pw-loopback: with \<^verbatim>\<open>-c 2 -m "[ FL ]"\<close> the map is
  stored, both streams are created and connected, and \<^verbatim>\<open>main\<close> returns 0.
\<close>

theorem channel_map_not_validated_counterexample:
  "atoi ''2'' = 2 \<and>
   opt_channel_map (fst (snd (main example_env [Opt_c ''2'', Opt_m ''[ FL ]''] example_world)))
     = Some ''[ FL ]'' \<and>
   channels (fst (snd (main example_env [Opt_c ''2'', Opt_m ''[ FL ]''] example_world))) = 2 \<and>
   fst (main example_env [Opt_c ''2'', Opt_m ''[ FL ]''] example_world) = Some (Return 0) \<and>
   capture (fst (snd (main example_env [Opt_c ''2'', Opt_m ''[ FL ]''] example_world))) \<noteq> None \<and>
   playback (fst (snd (main example_env [Opt_c ''2'', Opt_m ''[ FL ]''] example_world))) \<noteq> None \<and>
   connection (the (capture (fst (snd (main example_env [Opt_c ''2'', Opt_m ''[ FL ]''] example_world)))))
     \<noteq> None \<and>
   connection (the (playback (fst (snd (main example_env [Opt_c ''2'', Opt_m ''[ FL ]''] example_world)))))
     \<noteq> None"
  by (simp add: loopback_defs example_env_def utoa_examples atoi_2
      DEFAULT_CHANNELS_def DEFAULT_CHANNEL_MAP_def)

text \<open>
  C7, amended. \<^verbatim>\<open>create_module_null_sink\<close> rejects a \<^verbatim>\<open>channel_map\<close> whose parsed length
  differs from the channel count with \<^verbatim>\<open>EINVAL\<close>, before the module is created, and frees the
  dictionary. In pw-loopback the argument of \<^verbatim>\<open>-m\<close> is only stored: replacing it by any
  other string changes neither the exit code nor the streams nor the memory.
\<close>

theorem channel_map_checked_by_null_sink_only:
  "(properties_new_ok x \<and>
    pw_properties_get (arguments_dict x argument) ''channel_map'' = Some str \<and>
    cm_channels (channel_map_parse x str (CHANNEL_MAP_INIT x)) \<noteq>
      (case pw_properties_get (arguments_dict x argument) ''channels'' of
         Some s \<Rightarrow> atoi s | None \<Rightarrow> defs_sample_spec_channels i)
    \<longrightarrow> is_NULL (create_module_null_sink x i argument) \<and>
        errno (create_module_null_sink x i argument) = EINVAL \<and>
        freed (create_module_null_sink x i argument) \<noteq> None) \<and>
   fst (main e (map (with_map m) opts) w) = fst (main e opts w) \<and>
   capture (fst (snd (main e (map (with_map m) opts) w))) = capture (fst (snd (main e opts w))) \<and>
   playback (fst (snd (main e (map (with_map m) opts) w))) = playback (fst (snd (main e opts w))) \<and>
   snd (snd (main e (map (with_map m) opts) w)) = snd (snd (main e opts w))"
proof (intro conjI impI)
  assume h: "properties_new_ok x \<and>
    pw_properties_get (arguments_dict x argument) ''channel_map'' = Some str \<and>
    cm_channels (channel_map_parse x str (CHANNEL_MAP_INIT x)) \<noteq>
      (case pw_properties_get (arguments_dict x argument) ''channels'' of
         Some s \<Rightarrow> atoi s | None \<Rightarrow> defs_sample_spec_channels i)"
  with create_module_null_sink_mismatch [where x = x and argument = argument and str = str and i = i]
  obtain ps where r: "create_module_null_sink x i argument = Returned_NULL EINVAL (Some ps)"
    by blast
  show "is_NULL (create_module_null_sink x i argument)"
    "errno (create_module_null_sink x i argument) = EINVAL"
    "freed (create_module_null_sink x i argument) \<noteq> None"
    by (simp_all add: r)
qed (simp_all add: main_ignores_map)

lemma arguments_dict_example:
  "arguments_dict example_externs (Some ''channels=2 channel_map=FL'')
     = [(PW_KEY_MODULE_AUTHOR, ''Wim Taymans <wim.taymans@gmail.com>''),
        (PW_KEY_MODULE_DESCRIPTION, ''A NULL sink''),
        (PW_KEY_MODULE_USAGE,
         ''sink_name=<name of sink> sink_properties=<properties for the sink> format=<sample format> rate=<sample rate> channels=<number of channels> channel_map=<channel map>''),
        (PW_KEY_MODULE_VERSION, ''0.3.20''), (''channels'', ''2''), (''channel_map'', ''FL''),
        (PW_KEY_NODE_NAME, ''null'')]"
  by (simp add: null_sink_defs example_externs_def parse_bag_null_sink)

theorem channel_map_checked_by_null_sink_only_witness:
  "properties_new_ok example_externs \<and>
   pw_properties_get (arguments_dict example_externs (Some ''channels=2 channel_map=FL'')) ''channel_map''
     = Some ''FL'' \<and>
   pw_properties_get (arguments_dict example_externs (Some ''channels=2 channel_map=FL'')) ''channels''
     = Some ''2'' \<and>
   atoi ''2'' = 2 \<and>
   cm_channels (channel_map_parse example_externs ''FL'' (CHANNEL_MAP_INIT example_externs)) = 1 \<and>
   is_NULL (create_module_null_sink example_externs example_impl (Some ''channels=2 channel_map=FL'')) \<and>
   errno (create_module_null_sink example_externs example_impl (Some ''channels=2 channel_map=FL''))
     = EINVAL \<and>
   fst (main example_env (map (with_map ''[ FL ]'') [Opt_c ''2'', Opt_m ''[ FL, FR ]'']) example_world)
     = fst (main example_env [Opt_c ''2'', Opt_m ''[ FL, FR ]''] example_world)"
  using channel_map_checked_by_null_sink_only
          [where x = example_externs and i = example_impl
             and argument = "Some ''channels=2 channel_map=FL''" and str = "''FL''"
             and e = example_env and m = "''[ FL ]''"
             and opts = "[Opt_c ''2'', Opt_m ''[ FL, FR ]'']" and w = example_world]
  by (simp add: arguments_dict_example pw_properties_get_def atoi_2)
     (simp add: example_externs_def)

end
